theory Spec2Isabelle
  imports Main "HOL-Library.Sublist"
begin

section \<open>Python values\<close>

text \<open>
  The handlers of \<^verbatim>\<open>Backend/main.py\<close> and \<^verbatim>\<open>FastAPI/main.py\<close> receive request bodies
  typed \<^verbatim>\<open>Dict[str, Any]\<close> and read the two mapping columns of a repair job with
  \<^verbatim>\<open>json.loads\<close>. The values they handle are the Python objects of a JSON document:
  \<^verbatim>\<open>None\<close>, \<^verbatim>\<open>bool\<close>, \<^verbatim>\<open>int\<close> (unbounded), \<^verbatim>\<open>float\<close>, \<^verbatim>\<open>str\<close>, \<^verbatim>\<open>list\<close> and \<^verbatim>\<open>dict\<close> with string
  keys. A dict is the list of its items in insertion order; Python keeps its keys
  distinct. A float is one of the three non-finite values or a finite double, written
  \<open>Finite m e\<close> for the number \<open>m\<close> times 2 to the power \<open>e\<close>. Zero and negative zero
  are not told apart: no handler behaves differently on them.
\<close>

datatype pyfloat = NaN | PosInf | NegInf | Finite int int

datatype pyval =
    PyNone
  | PyBool bool
  | PyInt int
  | PyFloat pyfloat
  | PyStr string
  | PyList "pyval list"
  | PyDict "(string \<times> pyval) list"

text \<open>Python's \<^verbatim>\<open>==\<close> on floats: \<^verbatim>\<open>nan\<close> equals nothing, itself included.\<close>

definition py_float_eq :: "pyfloat \<Rightarrow> pyfloat \<Rightarrow> bool" where
  "py_float_eq a b = (if a = NaN then False else if b = NaN then False else a = b)"

text \<open>
  \<^verbatim>\<open>sanitize_data\<close> (\<^verbatim>\<open>Backend/main.py\<close> 111-122, \<^verbatim>\<open>FastAPI/main.py\<close> 64-75): dicts and
  lists are rebuilt with every value sanitized; a float for which \<^verbatim>\<open>data != data\<close> holds
  or which is \<^verbatim>\<open>in [float("inf"), float("-inf")]\<close> becomes \<^verbatim>\<open>None\<close>; anything else is
  returned as it is.
\<close>

primrec sanitize_data :: "pyval \<Rightarrow> pyval" where
  "sanitize_data (PyDict kvs) = PyDict (map (map_prod id sanitize_data) kvs)"
| "sanitize_data (PyList vs) = PyList (map sanitize_data vs)"
| "sanitize_data (PyFloat data) =
     (if \<not> py_float_eq data data \<or> py_float_eq data PosInf \<or> py_float_eq data NegInf
      then PyNone else PyFloat data)"
| "sanitize_data PyNone = PyNone"
| "sanitize_data (PyBool b) = PyBool b"
| "sanitize_data (PyInt n) = PyInt n"
| "sanitize_data (PyStr s) = PyStr s"

text \<open>A value holds a non-finite float when one occurs in it at any depth.\<close>

primrec nonfinite :: "pyval \<Rightarrow> bool" where
  "nonfinite (PyDict kvs) = list_ex snd (map (map_prod id nonfinite) kvs)"
| "nonfinite (PyList vs) = list_ex id (map nonfinite vs)"
| "nonfinite (PyFloat f) = (case f of Finite m e \<Rightarrow> False | _ \<Rightarrow> True)"
| "nonfinite PyNone = False"
| "nonfinite (PyBool b) = False"
| "nonfinite (PyInt n) = False"
| "nonfinite (PyStr s) = False"

section \<open>Failures\<close>

text \<open>
  Why a statement fails: the server finds the statement text malformed
  (\<open>SyntaxError\<close>) or a name in it that is no column (\<open>UnknownColumn\<close>), or refuses a
  value for a column (\<open>IncorrectValue\<close>); the driver cannot convert a parameter
  (\<open>ParameterType\<close>) or is given a number of parameters that is not the number of
  placeholders (\<open>ParameterCount\<close>). Each is a \<^verbatim>\<open>mysql.connector.Error\<close>.
\<close>

datatype db_error =
    SyntaxError
  | ParameterCount
  | ParameterType
  | UnknownColumn
  | IncorrectValue

text \<open>
  How a handler can fail. \<open>HTTPException status detail\<close> is the exception the handler
  raises itself. \<open>DatabaseError e\<close> is the \<^verbatim>\<open>except Error\<close> clause: the handler answers
  status 500 with detail \<^verbatim>\<open>"Database error: ..."\<close>. \<open>Uncaught name\<close> is a Python exception no
  clause of the handler catches (the framework answers 500).
\<close>

datatype failure =
    HTTPException nat string
  | DatabaseError db_error
  | Uncaught string

fun status_code :: "failure \<Rightarrow> nat" where
  "status_code (HTTPException status detail) = status"
| "status_code (DatabaseError e) = 500"
| "status_code (Uncaught name) = 500"

section \<open>Operations on Python values\<close>

text \<open>
  \<^verbatim>\<open>key in container\<close> and \<^verbatim>\<open>container[key]\<close> for a string key, as \<^verbatim>\<open>update_stock\<close>
  applies them to whatever \<^verbatim>\<open>json.loads\<close> returned: membership is key membership on a
  dict, element membership on a list and substring search on a string, and raises
  \<^verbatim>\<open>TypeError\<close> on the other values; subscripting by a string succeeds on a dict only.
\<close>

definition py_in :: "string \<Rightarrow> pyval \<Rightarrow> failure + bool" where
  "py_in key container =
     (case container of
        PyDict d \<Rightarrow> Inr (key \<in> set (map fst d))
      | PyList vs \<Rightarrow> Inr (PyStr key \<in> set vs)
      | PyStr s \<Rightarrow> Inr (sublist key s)
      | _ \<Rightarrow> Inl (Uncaught ''TypeError''))"

definition py_getitem :: "pyval \<Rightarrow> string \<Rightarrow> failure + pyval" where
  "py_getitem container key =
     (case container of
        PyDict d \<Rightarrow> (case map_of d key of Some v \<Rightarrow> Inr v | None \<Rightarrow> Inl (Uncaught ''KeyError''))
      | _ \<Rightarrow> Inl (Uncaught ''TypeError''))"

text \<open>
  \<^verbatim>\<open>x < 0\<close> and \<^verbatim>\<open>x >= 0\<close> on a float; both are false on \<^verbatim>\<open>nan\<close>.
\<close>

definition float_neg :: "pyfloat \<Rightarrow> bool" where
  "float_neg f = (case f of NegInf \<Rightarrow> True | Finite m e \<Rightarrow> m < 0 | _ \<Rightarrow> False)"

definition float_nonneg :: "pyfloat \<Rightarrow> bool" where
  "float_nonneg f = (case f of PosInf \<Rightarrow> True | Finite m e \<Rightarrow> 0 \<le> m | _ \<Rightarrow> False)"

text \<open>\<^verbatim>\<open>new_stock < 0\<close> on the number the arithmetic of \<^verbatim>\<open>update_stock\<close> gave.\<close>

definition py_negative :: "pyval \<Rightarrow> bool" where
  "py_negative v = (case v of PyInt n \<Rightarrow> n < 0 | PyFloat f \<Rightarrow> float_neg f | _ \<Rightarrow> False)"

text \<open>
  The recorded quantities that are Python ints, with their value: a JSON integer, and
  \<^verbatim>\<open>true\<close> and \<^verbatim>\<open>false\<close>, which Python counts as 1 and 0.
\<close>

definition int_quantity :: "pyval \<Rightarrow> int option" where
  "int_quantity v =
     (case v of PyInt n \<Rightarrow> Some n | PyBool b \<Rightarrow> Some (if b then 1 else 0) | _ \<Rightarrow> None)"

text \<open>A recorded quantity that is a number and not below zero.\<close>

definition py_nonneg :: "pyval \<Rightarrow> bool" where
  "py_nonneg v =
     (case v of PyInt n \<Rightarrow> 0 \<le> n | PyBool b \<Rightarrow> True | PyFloat f \<Rightarrow> float_nonneg f
      | _ \<Rightarrow> False)"

section \<open>The store\<close>

text \<open>
  Modelled from the spec: the schema of the two tables, which is not part of the
  repository. Section 3 of the specification gives the part's quantity as an integer,
  the other part fields as strings, and the two mappings of a repair job as serialized
  text; no column is null. On an integer column
  \<^verbatim>\<open>int(repuesto['cantidad_disponible'])\<close> is the stored value.

  The tables are \<^verbatim>\<open>repuestos\<close> (parts) and \<^verbatim>\<open>maquinas\<close> (repair jobs), each a list of rows
  in the order the server returns them. The column names are those of the two
  \<^verbatim>\<open>INSERT\<close> statements, with \<^verbatim>\<open>ID\<close> and \<^verbatim>\<open>item\<close> the generated keys the \<^verbatim>\<open>WHERE\<close> clauses
  use; a name with a letter outside ASCII is written here without it. A \<^verbatim>\<open>WHERE\<close> clause
  matches a row when the column equals the bound value. Nothing in the handlers or in
  this model keeps \<^verbatim>\<open>codigo\<close>, \<^verbatim>\<open>ID\<close> or \<^verbatim>\<open>item\<close> unique.
\<close>

record repuesto_row =
  ID :: int
  codigo :: string
  descripcion :: string
  cantidad_disponible :: int
  n_estanteria :: string
  n_estante :: string
  n_BIN :: string
  posicion_BIN :: string

record maquina_row =
  item :: int
  numero_ficha :: int
  cliente :: string
  serie :: string
  modelo :: string
  n_bat :: string
  n_cargador :: string
  diagnostico :: string
  tipo :: string
  observaciones :: string
  reparacion :: string
  repuestos_colocados :: string
  repuestos_faltantes :: string
  n_ciclos :: string
  estado :: string

record db =
  repuestos :: "repuesto_row list"
  maquinas :: "maquina_row list"

text \<open>
  What the handlers call but the repository does not define is a parameter of the
  model: \<open>json_loads\<close> is \<^verbatim>\<open>json.loads\<close> (\<open>None\<close> when it raises), \<open>json_dumps\<close> is
  \<^verbatim>\<open>json.dumps\<close>; \<open>bindable\<close> says whether the driver can bind a Python value to a
  placeholder; \<open>as_text\<close> and \<open>as_int\<close> are the value a text or integer column takes
  when the server stores a bound parameter in it (\<open>None\<close> when the server refuses the
  value); \<open>found_rows\<close> says whether \<^verbatim>\<open>cursor.rowcount\<close> of an \<^verbatim>\<open>UPDATE\<close> counts the rows
  matched (otherwise the rows changed, the server's default). \<open>float_sub n f\<close> and
  \<open>float_add n f\<close> are Python's \<^verbatim>\<open>n - f\<close> and \<^verbatim>\<open>n + f\<close> for an int \<open>n\<close> and a float \<open>f\<close>
  (\<open>None\<close> when the int is too large to convert and Python raises \<^verbatim>\<open>OverflowError\<close>).
  \<open>foreign_statement\<close> is what driver and server make of an \<^verbatim>\<open>UPDATE\<close> whose field
  texts are not all column names of the table: the handlers paste a payload key into
  the statement text as it is, so such a statement is whatever SQL the keys spell; its
  result is the error or \<^verbatim>\<open>cursor.rowcount\<close>, and the store it leaves. The store is taken
  to answer every statement: connection and pool failures are not modelled, nor are
  the token check and the rate limit that stand before a handler.
\<close>

record env =
  json_loads :: "string \<Rightarrow> pyval option"
  json_dumps :: "pyval \<Rightarrow> string"
  bindable :: "pyval \<Rightarrow> bool"
  as_text :: "pyval \<Rightarrow> string option"
  as_int :: "pyval \<Rightarrow> int option"
  found_rows :: bool
  float_sub :: "int \<Rightarrow> pyfloat \<Rightarrow> pyfloat option"
  float_add :: "int \<Rightarrow> pyfloat \<Rightarrow> pyfloat option"
  foreign_statement :: "string \<Rightarrow> string list \<Rightarrow> pyval list \<Rightarrow> db \<Rightarrow> (db_error + nat) \<times> db"

section \<open>Stock reconciliation\<close>

text \<open>
  \<^verbatim>\<open>SELECT repuestos_colocados FROM maquinas WHERE item = %s\<close> and
  \<^verbatim>\<open>SELECT cantidad_disponible FROM repuestos WHERE codigo = %s\<close>, each followed by
  \<^verbatim>\<open>fetchone()\<close>: the column of the first matching row, or \<open>None\<close>.
\<close>

definition select_repuestos_colocados :: "db \<Rightarrow> int \<Rightarrow> string option" where
  "select_repuestos_colocados d ficha_id =
     map_option repuestos_colocados (find (\<lambda>f. item f = ficha_id) (maquinas d))"

definition select_cantidad_disponible :: "db \<Rightarrow> string \<Rightarrow> int option" where
  "select_cantidad_disponible d repuesto_codigo =
     map_option cantidad_disponible (find (\<lambda>r. codigo r = repuesto_codigo) (repuestos d))"

text \<open>
  \<^verbatim>\<open>UPDATE repuestos SET cantidad_disponible = %s WHERE codigo = %s\<close> followed by
  \<^verbatim>\<open>commit()\<close>: every row with that code takes the new quantity.
\<close>

definition update_cantidad_disponible :: "db \<Rightarrow> int \<Rightarrow> string \<Rightarrow> db" where
  "update_cantidad_disponible d new_stock repuesto_codigo =
     d\<lparr>repuestos :=
         map (\<lambda>r. if codigo r = repuesto_codigo then r\<lparr>cantidad_disponible := new_stock\<rparr> else r)
           (repuestos d)\<rparr>"

text \<open>
  \<^verbatim>\<open>stock_actual - cantidad\<close> and \<^verbatim>\<open>stock_actual + cantidad\<close>, the left operand being an
  \<^verbatim>\<open>int\<close>: with an int the result is an int, a bool counts as 1 or 0, with a float the
  result is a float, and \<^verbatim>\<open>None\<close>, a string, a list or a dict raise \<^verbatim>\<open>TypeError\<close>.
\<close>

definition py_sub :: "env \<Rightarrow> int \<Rightarrow> pyval \<Rightarrow> failure + pyval" where
  "py_sub E a v =
     (case v of
        PyInt n \<Rightarrow> Inr (PyInt (a - n))
      | PyBool b \<Rightarrow> Inr (PyInt (a - (if b then 1 else 0)))
      | PyFloat f \<Rightarrow>
          (case float_sub E a f of
             None \<Rightarrow> Inl (Uncaught ''OverflowError'')
           | Some r \<Rightarrow> Inr (PyFloat r))
      | _ \<Rightarrow> Inl (Uncaught ''TypeError''))"

definition py_add :: "env \<Rightarrow> int \<Rightarrow> pyval \<Rightarrow> failure + pyval" where
  "py_add E a v =
     (case v of
        PyInt n \<Rightarrow> Inr (PyInt (a + n))
      | PyBool b \<Rightarrow> Inr (PyInt (a + (if b then 1 else 0)))
      | PyFloat f \<Rightarrow>
          (case float_add E a f of
             None \<Rightarrow> Inl (Uncaught ''OverflowError'')
           | Some r \<Rightarrow> Inr (PyFloat r))
      | _ \<Rightarrow> Inl (Uncaught ''TypeError''))"

text \<open>
  The integer the column \<^verbatim>\<open>cantidad_disponible\<close> takes when the \<^verbatim>\<open>UPDATE\<close> binds
  \<open>new_stock\<close>: an int is stored as it is; for any other value the driver has to bind
  it and the server has to convert it, and either can refuse.
\<close>

definition stored_quantity :: "env \<Rightarrow> pyval \<Rightarrow> db_error + int" where
  "stored_quantity E new_stock =
     (case new_stock of
        PyInt n \<Rightarrow> Inr n
      | _ \<Rightarrow>
          if \<not> bindable E new_stock then Inl ParameterType
          else (case as_int E new_stock of None \<Rightarrow> Inl IncorrectValue | Some n \<Rightarrow> Inr n))"

record stock_response =
  message :: string
  new_stock :: pyval

text \<open>
  The end of \<^verbatim>\<open>update_stock\<close> (\<^verbatim>\<open>Backend/main.py\<close> 417-422): the \<^verbatim>\<open>UPDATE\<close>, the commit and
  the answer, or the \<^verbatim>\<open>except\<close> clause when the statement fails.
\<close>

definition write_stock :: "env \<Rightarrow> db \<Rightarrow> string \<Rightarrow> pyval \<Rightarrow> (failure + stock_response) \<times> db" where
  "write_stock E d repuesto_codigo new_stock' =
     (case stored_quantity E new_stock' of
        Inl e \<Rightarrow> (Inl (DatabaseError e), d)
      | Inr n \<Rightarrow>
          (Inr \<lparr>message = ''Stock updated successfully'', new_stock = new_stock'\<rparr>,
           update_cantidad_disponible d n repuesto_codigo))"

text \<open>
  \<^verbatim>\<open>update_stock\<close> (\<^verbatim>\<open>Backend/main.py\<close> 390-426, \<^verbatim>\<open>FastAPI/main.py\<close> 352-399; the two bodies
  agree). The action is a string: \<^verbatim>\<open>FastAPI/main.py\<close> declares it \<^verbatim>\<open>str\<close>, and the
  \<^verbatim>\<open>Literal\<close> of \<^verbatim>\<open>Backend/main.py\<close> only narrows what reaches the handler. The result is
  the handler's outcome together with the store it leaves; \<open>new_stock'\<close> is the
  variable \<^verbatim>\<open>new_stock\<close>.
\<close>

definition update_stock ::
  "env \<Rightarrow> int \<Rightarrow> string \<Rightarrow> string \<Rightarrow> db \<Rightarrow> (failure + stock_response) \<times> db" where
  "update_stock E ficha_id repuesto_codigo action d =
     (case select_repuestos_colocados d ficha_id of
        None \<Rightarrow> (Inl (HTTPException 404 ''Ficha or Repuesto not found''), d)
      | Some ficha \<Rightarrow>
     (case select_cantidad_disponible d repuesto_codigo of
        None \<Rightarrow> (Inl (HTTPException 404 ''Ficha or Repuesto not found''), d)
      | Some repuesto \<Rightarrow>
     (case json_loads E ficha of
        None \<Rightarrow> (Inl (Uncaught ''JSONDecodeError''), d)
      | Some colocados \<Rightarrow>
     (case py_in repuesto_codigo colocados of
        Inl e \<Rightarrow> (Inl e, d)
      | Inr present \<Rightarrow>
          if \<not> present
          then (Inl (HTTPException 400 ''Repuesto not found in repuestos_colocados''), d)
          else
     (case py_getitem colocados repuesto_codigo of
        Inl e \<Rightarrow> (Inl e, d)
      | Inr cantidad \<Rightarrow>
          let stock_actual = repuesto in
          if action = ''decrease'' then
            (case py_sub E stock_actual cantidad of
               Inl e \<Rightarrow> (Inl e, d)
             | Inr new_stock' \<Rightarrow>
                 if py_negative new_stock'
                 then (Inl (HTTPException 400 ''Not enough stock''), d)
                 else write_stock E d repuesto_codigo new_stock')
          else if action = ''increase'' then
            (case py_add E stock_actual cantidad of
               Inl e \<Rightarrow> (Inl e, d)
             | Inr new_stock' \<Rightarrow> write_stock E d repuesto_codigo new_stock')
          else (Inl (HTTPException 400 ''Invalid action''), d))))))"

section \<open>Partial update and delete\<close>

text \<open>
  Column names as the statements spell them, in UTF-8: \<open>ordm\<close>, \<open>oacute\<close> and \<open>iacute\<close>
  are the bytes of the masculine ordinal sign and of the letters o and i with an acute
  accent.
\<close>

definition ordm :: string where
  "ordm = [CHR 0xC2, CHR 0xBA]"

definition oacute :: string where
  "oacute = [CHR 0xC3, CHR 0xB3]"

definition iacute :: string where
  "iacute = [CHR 0xC3, CHR 0xAD]"

definition col_descripcion :: string where
  "col_descripcion = ''descripci'' @ oacute @ ''n''"

definition col_n_estanteria :: string where
  "col_n_estanteria = ''n'' @ ordm @ ''_estanter'' @ iacute @ ''a''"

definition col_n_estante :: string where
  "col_n_estante = ''n'' @ ordm @ ''_estante''"

definition col_n_BIN :: string where
  "col_n_BIN = ''n'' @ ordm @ ''_BIN''"

definition col_posicion_BIN :: string where
  "col_posicion_BIN = ''posici'' @ oacute @ ''n_BIN''"

definition col_n_bat :: string where
  "col_n_bat = ''n'' @ ordm @ ''_bat''"

definition col_n_cargador :: string where
  "col_n_cargador = ''n'' @ ordm @ ''_cargador''"

definition col_diagnostico :: string where
  "col_diagnostico = ''diagn'' @ oacute @ ''stico''"

definition col_reparacion :: string where
  "col_reparacion = ''reparaci'' @ oacute @ ''n''"

definition col_n_ciclos :: string where
  "col_n_ciclos = ''n'' @ ordm @ ''_ciclos''"

definition repuestos_columns :: "string list" where
  "repuestos_columns =
     [''ID'', ''codigo'', col_descripcion, ''cantidad_disponible'', col_n_estanteria,
      col_n_estante, col_n_BIN, col_posicion_BIN]"

definition maquinas_columns :: "string list" where
  "maquinas_columns =
     [''item'', ''numero_ficha'', ''cliente'', ''serie'', ''modelo'', col_n_bat, col_n_cargador,
      col_diagnostico, ''tipo'', ''observaciones'', col_reparacion, ''repuestos_colocados'',
      ''repuestos_faltantes'', col_n_ciclos, ''estado'']"

text \<open>
  \<^verbatim>\<open>SET column = %s\<close> on one row: the column takes the value the server makes of the bound
  parameter; \<open>None\<close> when the server refuses the value, or when the name is no column.
\<close>

definition set_repuesto_col :: "env \<Rightarrow> string \<Rightarrow> pyval \<Rightarrow> repuesto_row \<Rightarrow> repuesto_row option" where
  "set_repuesto_col E c v r =
     (if c = ''ID'' then map_option (\<lambda>x. r\<lparr>ID := x\<rparr>) (as_int E v)
      else if c = ''codigo'' then map_option (\<lambda>x. r\<lparr>codigo := x\<rparr>) (as_text E v)
      else if c = col_descripcion then map_option (\<lambda>x. r\<lparr>descripcion := x\<rparr>) (as_text E v)
      else if c = ''cantidad_disponible''
        then map_option (\<lambda>x. r\<lparr>cantidad_disponible := x\<rparr>) (as_int E v)
      else if c = col_n_estanteria then map_option (\<lambda>x. r\<lparr>n_estanteria := x\<rparr>) (as_text E v)
      else if c = col_n_estante then map_option (\<lambda>x. r\<lparr>n_estante := x\<rparr>) (as_text E v)
      else if c = col_n_BIN then map_option (\<lambda>x. r\<lparr>n_BIN := x\<rparr>) (as_text E v)
      else if c = col_posicion_BIN then map_option (\<lambda>x. r\<lparr>posicion_BIN := x\<rparr>) (as_text E v)
      else None)"

definition set_maquina_col :: "env \<Rightarrow> string \<Rightarrow> pyval \<Rightarrow> maquina_row \<Rightarrow> maquina_row option" where
  "set_maquina_col E c v r =
     (if c = ''item'' then map_option (\<lambda>x. r\<lparr>item := x\<rparr>) (as_int E v)
      else if c = ''numero_ficha'' then map_option (\<lambda>x. r\<lparr>numero_ficha := x\<rparr>) (as_int E v)
      else if c = ''cliente'' then map_option (\<lambda>x. r\<lparr>cliente := x\<rparr>) (as_text E v)
      else if c = ''serie'' then map_option (\<lambda>x. r\<lparr>serie := x\<rparr>) (as_text E v)
      else if c = ''modelo'' then map_option (\<lambda>x. r\<lparr>modelo := x\<rparr>) (as_text E v)
      else if c = col_n_bat then map_option (\<lambda>x. r\<lparr>n_bat := x\<rparr>) (as_text E v)
      else if c = col_n_cargador then map_option (\<lambda>x. r\<lparr>n_cargador := x\<rparr>) (as_text E v)
      else if c = col_diagnostico then map_option (\<lambda>x. r\<lparr>diagnostico := x\<rparr>) (as_text E v)
      else if c = ''tipo'' then map_option (\<lambda>x. r\<lparr>tipo := x\<rparr>) (as_text E v)
      else if c = ''observaciones'' then map_option (\<lambda>x. r\<lparr>observaciones := x\<rparr>) (as_text E v)
      else if c = col_reparacion then map_option (\<lambda>x. r\<lparr>reparacion := x\<rparr>) (as_text E v)
      else if c = ''repuestos_colocados''
        then map_option (\<lambda>x. r\<lparr>repuestos_colocados := x\<rparr>) (as_text E v)
      else if c = ''repuestos_faltantes''
        then map_option (\<lambda>x. r\<lparr>repuestos_faltantes := x\<rparr>) (as_text E v)
      else if c = col_n_ciclos then map_option (\<lambda>x. r\<lparr>n_ciclos := x\<rparr>) (as_text E v)
      else if c = ''estado'' then map_option (\<lambda>x. r\<lparr>estado := x\<rparr>) (as_text E v)
      else None)"

text \<open>The assignments of one \<^verbatim>\<open>SET\<close> list on one row, left to right.\<close>

fun apply_sets :: "(string \<Rightarrow> pyval \<Rightarrow> 'r \<Rightarrow> 'r option) \<Rightarrow> (string \<times> pyval) list \<Rightarrow> 'r \<Rightarrow> 'r option" where
  "apply_sets set_col [] r = Some r"
| "apply_sets set_col ((c, v) # sets) r =
     (case set_col c v r of None \<Rightarrow> None | Some r' \<Rightarrow> apply_sets set_col sets r')"

text \<open>
  The rows of a table after an \<^verbatim>\<open>UPDATE\<close>: a row the \<^verbatim>\<open>WHERE\<close> clause matches is rewritten,
  the others are kept; \<open>None\<close> when the server refuses a value, and then no row changes.
\<close>

fun update_rows :: "('r \<Rightarrow> bool) \<Rightarrow> ('r \<Rightarrow> 'r option) \<Rightarrow> 'r list \<Rightarrow> 'r list option" where
  "update_rows matches f [] = Some []"
| "update_rows matches f (r # rs) =
     (if matches r
      then (case f r of
              None \<Rightarrow> None
            | Some r' \<Rightarrow> map_option ((#) r') (update_rows matches f rs))
      else map_option ((#) r) (update_rows matches f rs))"

definition rows_changed :: "'r list \<Rightarrow> 'r list \<Rightarrow> nat" where
  "rows_changed rows rows' = length (filter (\<lambda>(a, b). a \<noteq> b) (zip rows rows'))"

text \<open>
  \<^verbatim>\<open>cursor.execute("UPDATE t SET f1 = %s, ..., fn = %s WHERE key = %s", params)\<close> followed
  by \<^verbatim>\<open>commit()\<close>, on the rows of table \<open>t\<close>; the result is \<^verbatim>\<open>cursor.rowcount\<close> and the
  rows after the statement. The driver binds the parameters to the placeholders, in
  order, and raises when it cannot convert one or when their number is not the number
  of placeholders; the server refuses an empty \<^verbatim>\<open>SET\<close> list and a name that is no column
  of the table. This is the statement whose fields are column names, spelled as the
  table spells them: \<^verbatim>\<open>update_repuesto\<close> of \<^verbatim>\<open>Backend/main.py\<close> sends no other, and the
  handlers that paste any key into the text go through \<open>execute_repuestos\<close> and
  \<open>execute_maquinas\<close> below, which hand every other statement to
  \<open>foreign_statement\<close>.
\<close>

definition execute_update ::
  "env \<Rightarrow> string list \<Rightarrow> (string \<Rightarrow> pyval \<Rightarrow> 'r \<Rightarrow> 'r option) \<Rightarrow> ('r \<Rightarrow> int) \<Rightarrow>
   string list \<Rightarrow> pyval list \<Rightarrow> 'r list \<Rightarrow> db_error + nat \<times> 'r list" where
  "execute_update E columns set_col key update_fields params rows =
     (if \<not> list_all (bindable E) params then Inl ParameterType
      else if length params \<noteq> length update_fields + 1 then Inl ParameterCount
      else if update_fields = [] then Inl SyntaxError
      else if \<not> list_all (\<lambda>c. c \<in> set columns) update_fields then Inl UnknownColumn
      else
        (case update_rows (\<lambda>r. PyInt (key r) = last params)
                (apply_sets set_col (zip update_fields (butlast params))) rows of
           None \<Rightarrow> Inl IncorrectValue
         | Some rows' \<Rightarrow>
             Inr (if found_rows E
                  then length (filter (\<lambda>r. PyInt (key r) = last params) rows)
                  else rows_changed rows rows',
                  rows')))"

text \<open>
  The \<^verbatim>\<open>UPDATE\<close> of a handler that takes its field texts from the payload keys, on the
  whole store: column names give the statement above; anything else is SQL text of
  the caller's, and its effect is the parameter \<open>foreign_statement\<close>.
\<close>

definition execute_repuestos ::
  "env \<Rightarrow> string list \<Rightarrow> pyval list \<Rightarrow> db \<Rightarrow> (db_error + nat) \<times> db" where
  "execute_repuestos E update_fields params d =
     (if list_all (\<lambda>c. c \<in> set repuestos_columns) update_fields
      then (case execute_update E repuestos_columns (set_repuesto_col E) ID update_fields params
                   (repuestos d) of
              Inl e \<Rightarrow> (Inl e, d)
            | Inr (rowcount, rows') \<Rightarrow> (Inr rowcount, d\<lparr>repuestos := rows'\<rparr>))
      else foreign_statement E ''repuestos'' update_fields params d)"

definition execute_maquinas ::
  "env \<Rightarrow> string list \<Rightarrow> pyval list \<Rightarrow> db \<Rightarrow> (db_error + nat) \<times> db" where
  "execute_maquinas E update_fields params d =
     (if list_all (\<lambda>c. c \<in> set maquinas_columns) update_fields
      then (case execute_update E maquinas_columns (set_maquina_col E) item update_fields params
                   (maquinas d) of
              Inl e \<Rightarrow> (Inl e, d)
            | Inr (rowcount, rows') \<Rightarrow> (Inr rowcount, d\<lparr>maquinas := rows'\<rparr>))
      else foreign_statement E ''maquinas'' update_fields params d)"

definition allowed_fields :: "string list" where
  "allowed_fields =
     [''codigo'', col_descripcion, ''cantidad_disponible'', col_n_estanteria, col_n_estante,
      col_n_BIN, col_posicion_BIN]"

text \<open>
  \<^verbatim>\<open>update_repuesto\<close> of \<^verbatim>\<open>Backend/main.py\<close> (168-194). The payload is the list of the
  dict's items. \<open>update_fields\<close> keeps the allow-listed keys, \<open>values\<close> is
  \<^verbatim>\<open>list(repuesto.values())\<close>, every value of the payload, with the identifier appended.
\<close>

definition update_repuesto ::
  "env \<Rightarrow> int \<Rightarrow> (string \<times> pyval) list \<Rightarrow> db \<Rightarrow> (failure + string) \<times> db" where
  "update_repuesto E id' repuesto d =
     (let update_fields = filter (\<lambda>field. field \<in> set allowed_fields) (map fst repuesto) in
      if update_fields = [] then (Inl (HTTPException 400 ''No valid fields to update''), d)
      else
        let values = map snd repuesto @ [PyInt id'] in
        (case execute_update E repuestos_columns (set_repuesto_col E) ID update_fields values
                (repuestos d) of
           Inl e \<Rightarrow> (Inl (DatabaseError e), d)
         | Inr (rowcount, rows') \<Rightarrow>
             if rowcount = 0
             then (Inl (HTTPException 404 ''Repuesto no encontrado''), d\<lparr>repuestos := rows'\<rparr>)
             else (Inr ''Repuesto actualizado exitosamente'', d\<lparr>repuestos := rows'\<rparr>)))"

text \<open>
  \<^verbatim>\<open>update_repuesto\<close> of \<^verbatim>\<open>FastAPI/main.py\<close> (122-155): no allow-list; every key is a
  field of the statement.
\<close>

definition update_repuesto_FastAPI ::
  "env \<Rightarrow> int \<Rightarrow> (string \<times> pyval) list \<Rightarrow> db \<Rightarrow> (failure + string) \<times> db" where
  "update_repuesto_FastAPI E id' repuesto d =
     (let update_fields = map fst repuesto; values = map snd repuesto in
      if update_fields = [] then (Inl (HTTPException 400 ''No fields to update''), d)
      else
        (case execute_repuestos E update_fields (values @ [PyInt id']) d of
           (Inl e, d') \<Rightarrow> (Inl (DatabaseError e), d')
         | (Inr rowcount, d') \<Rightarrow>
             if rowcount = 0
             then (Inl (HTTPException 404 ''Repuesto no encontrado''), d')
             else (Inr ''Repuesto actualizado exitosamente'', d')))"

text \<open>
  The loop of \<^verbatim>\<open>update_ficha\<close> over the payload's items: the value of the two mapping
  fields is serialized with \<^verbatim>\<open>json.dumps\<close>, any other value is passed as it is.
\<close>

definition ficha_value :: "env \<Rightarrow> string \<times> pyval \<Rightarrow> pyval" where
  "ficha_value E kv =
     (if fst kv \<in> set [''repuestos_colocados'', ''repuestos_faltantes'']
      then PyStr (json_dumps E (snd kv)) else snd kv)"

text \<open>
  \<^verbatim>\<open>update_ficha\<close> of \<^verbatim>\<open>Backend/main.py\<close> (297-327): the statement is built and executed
  whatever the payload holds, every key a field text of the \<^verbatim>\<open>SET\<close> list.
\<close>

definition update_ficha ::
  "env \<Rightarrow> int \<Rightarrow> (string \<times> pyval) list \<Rightarrow> db \<Rightarrow> (failure + string) \<times> db" where
  "update_ficha E id' ficha d =
     (let update_fields = map fst ficha; values = map (ficha_value E) ficha in
      (case execute_maquinas E update_fields (values @ [PyInt id']) d of
         (Inl e, d') \<Rightarrow> (Inl (DatabaseError e), d')
       | (Inr rowcount, d') \<Rightarrow>
           if rowcount = 0
           then (Inl (HTTPException 404 ''Ficha no encontrada''), d')
           else (Inr ''Ficha actualizada exitosamente'', d')))"

text \<open>
  \<^verbatim>\<open>update_ficha\<close> of \<^verbatim>\<open>FastAPI/main.py\<close> (255-291): the same loop, then the check
  \<^verbatim>\<open>if not update_fields\<close> before the statement is built.
\<close>

definition update_ficha_FastAPI ::
  "env \<Rightarrow> int \<Rightarrow> (string \<times> pyval) list \<Rightarrow> db \<Rightarrow> (failure + string) \<times> db" where
  "update_ficha_FastAPI E id' ficha d =
     (let update_fields = map fst ficha; values = map (ficha_value E) ficha in
      if update_fields = [] then (Inl (HTTPException 400 ''No fields to update''), d)
      else
        (case execute_maquinas E update_fields (values @ [PyInt id']) d of
           (Inl e, d') \<Rightarrow> (Inl (DatabaseError e), d')
         | (Inr rowcount, d') \<Rightarrow>
             if rowcount = 0
             then (Inl (HTTPException 404 ''Ficha no encontrada''), d')
             else (Inr ''Ficha actualizada exitosamente'', d')))"



section \<open>Listing the repair jobs\<close>

text \<open>
  \<^verbatim>\<open>get_fichas\<close> (\<^verbatim>\<open>Backend/main.py\<close> 249-269, \<^verbatim>\<open>FastAPI/main.py\<close> 208-227): the rows ordered
  by \<^verbatim>\<open>numero_ficha\<close>, each with its two mapping columns replaced by what \<^verbatim>\<open>json.loads\<close>
  makes of them, returned as they are. A row of the answer keeps the stored row and
  carries the two decoded values. \<^verbatim>\<open>json.loads\<close> raising ends the handler with an
  exception no clause catches.
\<close>

record ficha_dict =
  stored :: maquina_row
  colocados :: pyval
  faltantes :: pyval

fun decode_fichas :: "env \<Rightarrow> maquina_row list \<Rightarrow> failure + ficha_dict list" where
  "decode_fichas E [] = Inr []"
| "decode_fichas E (ficha # fichas) =
     (case json_loads E (repuestos_colocados ficha) of
        None \<Rightarrow> Inl (Uncaught ''JSONDecodeError'')
      | Some c \<Rightarrow>
     (case json_loads E (repuestos_faltantes ficha) of
        None \<Rightarrow> Inl (Uncaught ''JSONDecodeError'')
      | Some f \<Rightarrow>
     (case decode_fichas E fichas of
        Inl e \<Rightarrow> Inl e
      | Inr rest \<Rightarrow> Inr (\<lparr>stored = ficha, colocados = c, faltantes = f\<rparr> # rest))))"

definition get_fichas :: "env \<Rightarrow> db \<Rightarrow> failure + ficha_dict list" where
  "get_fichas E d = decode_fichas E (sort_key numero_ficha (maquinas d))"

section \<open>Example data\<close>

text \<open>
  The fragment of \<^verbatim>\<open>json.loads\<close> and \<^verbatim>\<open>json.dumps\<close> the examples below use: each text with
  the value Python decodes it to, which is also the value Python serializes to that
  text. The other collaborators of the examples: a driver that binds every value but
  lists and dicts; a server that stores a string in a text column, and in an integer
  column an int, a bool as 1 or 0 and a finite float rounded to the nearest integer,
  a half away from zero, and refuses anything else; the differences and sums of an int
  and a float that the examples compute; and no statement with a field text that is
  not a column name, so that \<open>foreign_statement\<close> answers an error and changes nothing.
\<close>

definition text_P1_5 :: string where
  \<open>text_P1_5 = ''{"P1": 5}''\<close>

definition text_P1_minus5 :: string where
  \<open>text_P1_minus5 = ''{"P1": -5}''\<close>

definition text_P1_2_5 :: string where
  \<open>text_P1_2_5 = ''{"P1": 2.5}''\<close>

definition text_P1_NaN :: string where
  \<open>text_P1_NaN = ''{"P1": NaN}''\<close>

definition loads_table :: "(string \<times> pyval) list" where
  "loads_table =
     [(text_P1_5, PyDict [(''P1'', PyInt 5)]),
      (text_P1_minus5, PyDict [(''P1'', PyInt (- 5))]),
      (text_P1_2_5, PyDict [(''P1'', PyFloat (Finite 5 (- 1)))]),
      (text_P1_NaN, PyDict [(''P1'', PyFloat NaN)]),
      (''{}'', PyDict [])]"

definition round_half_away :: "int \<Rightarrow> int \<Rightarrow> int" where
  "round_half_away m e =
     (if 0 \<le> e then m * 2 ^ nat e
      else sgn m * ((2 * \<bar>m\<bar> + 2 ^ nat (- e)) div (2 * 2 ^ nat (- e))))"

definition sub_table :: "((int \<times> pyfloat) \<times> pyfloat) list" where
  "sub_table =
     [((10, Finite 5 (- 1)), Finite 15 (- 1)),
      ((11, Finite 5 (- 1)), Finite 17 (- 1)),
      ((1, Finite 5 (- 1)), Finite (- 3) (- 1))]"

definition add_table :: "((int \<times> pyfloat) \<times> pyfloat) list" where
  "add_table =
     [((9, Finite 5 (- 1)), Finite 23 (- 1)),
      ((10, Finite 5 (- 1)), Finite 25 (- 1))]"

definition E0 :: env where
  "E0 = \<lparr>json_loads = map_of loads_table,
         json_dumps =
           (\<lambda>v. case find (\<lambda>kv. snd kv = v) loads_table of
                  Some kv \<Rightarrow> fst kv
                | None \<Rightarrow> ''null''),
         bindable = (\<lambda>v. case v of PyList vs \<Rightarrow> False | PyDict kvs \<Rightarrow> False | _ \<Rightarrow> True),
         as_text = (\<lambda>v. case v of PyStr s \<Rightarrow> Some s | _ \<Rightarrow> None),
         as_int =
           (\<lambda>v. case v of
                  PyInt n \<Rightarrow> Some n
                | PyBool b \<Rightarrow> Some (if b then 1 else 0)
                | PyFloat (Finite m e) \<Rightarrow> Some (round_half_away m e)
                | _ \<Rightarrow> None),
         found_rows = False,
         float_sub = (\<lambda>n f. map_of sub_table (n, f)),
         float_add = (\<lambda>n f. map_of add_table (n, f)),
         foreign_statement = (\<lambda>table update_fields params d. (Inl SyntaxError, d))\<rparr>"

definition part_P1 :: "int \<Rightarrow> repuesto_row" where
  "part_P1 n = \<lparr>ID = 1, codigo = ''P1'', descripcion = ''fuse'', cantidad_disponible = n,
     n_estanteria = ''1'', n_estante = ''2'', n_BIN = ''3'', posicion_BIN = ''4''\<rparr>"

definition job_7 :: "string \<Rightarrow> maquina_row" where
  "job_7 placed = \<lparr>item = 7, numero_ficha = 100, cliente = ''ACME'', serie = ''S1'', modelo = ''M1'',
     n_bat = ''B1'', n_cargador = ''C1'', diagnostico = ''none'', tipo = ''T'', observaciones = ''none'',
     reparacion = ''none'', repuestos_colocados = placed, repuestos_faltantes = ''{}'',
     n_ciclos = ''0'', estado = ''open''\<rparr>"

definition part_P2 :: repuesto_row where
  "part_P2 = \<lparr>ID = 2, codigo = ''P2'', descripcion = ''relay'', cantidad_disponible = 4,
     n_estanteria = ''1'', n_estante = ''2'', n_BIN = ''5'', posicion_BIN = ''6''\<rparr>"

text \<open>
  A store with two parts and one repair job: part \<^verbatim>\<open>P1\<close> with \<open>n\<close> pieces in stock, part
  \<^verbatim>\<open>P2\<close>, and job 7 whose \<^verbatim>\<open>repuestos_colocados\<close> column holds the text \<open>placed\<close>.
\<close>

definition shop :: "int \<Rightarrow> string \<Rightarrow> db" where
  "shop n placed = \<lparr>repuestos = [part_P1 n, part_P2], maquinas = [job_7 placed]\<rparr>"

section \<open>Properties of stock reconciliation\<close>

lemma find_update_cantidad:
  "find (\<lambda>r. codigo r = c)
     (map (\<lambda>r. if codigo r = c then r\<lparr>cantidad_disponible := n\<rparr> else r) rows) =
   map_option (\<lambda>r. r\<lparr>cantidad_disponible := n\<rparr>) (find (\<lambda>r. codigo r = c) rows)"
  by (induction rows) auto

lemma select_after_update:
  "select_cantidad_disponible (update_cantidad_disponible d n c) c =
   map_option (\<lambda>x. n) (select_cantidad_disponible d c)"
  by (simp add: select_cantidad_disponible_def update_cantidad_disponible_def
      find_update_cantidad option.map_comp comp_def)

lemma select_colocados_after_update:
  "select_repuestos_colocados (update_cantidad_disponible d n c) i = select_repuestos_colocados d i"
  by (simp add: select_repuestos_colocados_def update_cantidad_disponible_def)

lemma py_in_dict: "py_in k (PyDict kvs) = Inr (k \<in> fst ` set kvs)"
  by (simp add: py_in_def)

lemma py_getitem_dict:
  "map_of kvs k = Some v \<Longrightarrow> py_getitem (PyDict kvs) k = Inr v"
  by (simp add: py_getitem_def)

lemma map_of_key: "map_of kvs k = Some v \<Longrightarrow> k \<in> fst ` set kvs"
  by (metis domI dom_map_of_conv_image_fst)

text \<open>
  The arithmetic and the write on a recorded quantity that is a Python int: the result
  is an int, and the column takes it as it is.
\<close>

lemma py_sub_int: "int_quantity v = Some q \<Longrightarrow> py_sub E cur v = Inr (PyInt (cur - q))"
  by (auto simp: int_quantity_def py_sub_def split: pyval.splits)

lemma py_add_int: "int_quantity v = Some q \<Longrightarrow> py_add E cur v = Inr (PyInt (cur + q))"
  by (auto simp: int_quantity_def py_add_def split: pyval.splits)

lemma stored_quantity_int: "stored_quantity E (PyInt n) = Inr n"
  by (simp add: stored_quantity_def)

lemma write_stock_int:
  "write_stock E d code (PyInt n) =
     (Inr \<lparr>message = ''Stock updated successfully'', new_stock = PyInt n\<rparr>,
      update_cantidad_disponible d n code)"
  by (simp add: write_stock_def stored_quantity_int)

lemma write_stock_stored:
  "stored_quantity E r = Inr n \<Longrightarrow>
   write_stock E d code r =
     (Inr \<lparr>message = ''Stock updated successfully'', new_stock = r\<rparr>,
      update_cantidad_disponible d n code)"
  by (simp add: write_stock_def)

lemma write_stock_refused:
  "stored_quantity E r = Inl e \<Longrightarrow> write_stock E d code r = (Inl (DatabaseError e), d)"
  by (simp add: write_stock_def)

text \<open>
  What \<^verbatim>\<open>update_stock\<close> does once both rows are found and the part code is a key of the
  decoded mapping, with the value \<open>v\<close> recorded under it.
\<close>

lemma update_stock_recorded:
  assumes "select_repuestos_colocados d ficha_id = Some js"
    and "select_cantidad_disponible d code = Some cur"
    and "json_loads E js = Some (PyDict placed)"
    and "map_of placed code = Some v"
  shows "update_stock E ficha_id code action d =
    (if action = ''decrease'' then
       (case py_sub E cur v of
          Inl e \<Rightarrow> (Inl e, d)
        | Inr r \<Rightarrow>
            if py_negative r then (Inl (HTTPException 400 ''Not enough stock''), d)
            else write_stock E d code r)
     else if action = ''increase'' then
       (case py_add E cur v of
          Inl e \<Rightarrow> (Inl e, d)
        | Inr r \<Rightarrow> write_stock E d code r)
     else (Inl (HTTPException 400 ''Invalid action''), d))"
  using assms map_of_key[OF assms(4)]
  by (simp add: update_stock_def py_in_dict py_getitem_dict Let_def)

text \<open>What a successful \<^verbatim>\<open>update_stock\<close> tells about its input and its result.\<close>

lemma write_stock_success:
  assumes "write_stock E d code r = (Inr resp, d')"
  shows "resp = \<lparr>message = ''Stock updated successfully'', new_stock = r\<rparr>
         \<and> (\<exists>n. stored_quantity E r = Inr n \<and> d' = update_cantidad_disponible d n code)"
  using assms by (auto simp: write_stock_def split: sum.splits)

lemma update_stock_success:
  assumes "update_stock E ficha_id code action d = (Inr resp, d')"
  obtains js cur val cantidad r n where
    "select_repuestos_colocados d ficha_id = Some js"
    "select_cantidad_disponible d code = Some cur"
    "json_loads E js = Some val"
    "py_in code val = Inr True"
    "py_getitem val code = Inr cantidad"
    "action = ''decrease'' \<and> py_sub E cur cantidad = Inr r \<and> \<not> py_negative r
       \<or> action = ''increase'' \<and> py_add E cur cantidad = Inr r"
    "resp = \<lparr>message = ''Stock updated successfully'', new_stock = r\<rparr>"
    "stored_quantity E r = Inr n"
    "d' = update_cantidad_disponible d n code"
proof -
  from assms obtain js cur val cantidad where
    s: "select_repuestos_colocados d ficha_id = Some js"
       "select_cantidad_disponible d code = Some cur"
       "json_loads E js = Some val"
       "py_in code val = Inr True"
       "py_getitem val code = Inr cantidad"
    and w: "action = ''decrease'' \<and>
              (\<exists>r. py_sub E cur cantidad = Inr r \<and> \<not> py_negative r
                   \<and> write_stock E d code r = (Inr resp, d'))
            \<or> action = ''increase'' \<and>
              (\<exists>r. py_add E cur cantidad = Inr r \<and> write_stock E d code r = (Inr resp, d'))"
    by (auto simp: update_stock_def Let_def split: option.splits sum.splits if_splits)
  from w obtain r where
    r: "action = ''decrease'' \<and> py_sub E cur cantidad = Inr r \<and> \<not> py_negative r
        \<or> action = ''increase'' \<and> py_add E cur cantidad = Inr r"
    and "write_stock E d code r = (Inr resp, d')"
    by blast
  from write_stock_success[OF this(2)] obtain n where
    "resp = \<lparr>message = ''Stock updated successfully'', new_stock = r\<rparr>"
    "stored_quantity E r = Inr n" "d' = update_cantidad_disponible d n code"
    by blast
  with s r show ?thesis by (rule that)
qed

lemma rows_with_code_after_update:
  assumes "r \<in> set (repuestos (update_cantidad_disponible d n c))" and "codigo r = c"
  shows "cantidad_disponible r = n"
proof -
  from assms(1)
  have "r \<in> (\<lambda>x. if codigo x = c then x\<lparr>cantidad_disponible := n\<rparr> else x) ` set (repuestos d)"
    unfolding update_cantidad_disponible_def by simp
  then obtain x where r: "r = (if codigo x = c then x\<lparr>cantidad_disponible := n\<rparr> else x)"
    by (rule imageE)
  show ?thesis
  proof (cases "codigo x = c")
    case True
    with r show ?thesis by simp
  next
    case False
    with r assms(2) show ?thesis by simp
  qed
qed

subsection \<open>The example store\<close>

lemma shop_job: "select_repuestos_colocados (shop n placed) 7 = Some placed"
  by (simp add: select_repuestos_colocados_def shop_def job_7_def)

lemma shop_no_job_8: "select_repuestos_colocados (shop n placed) 8 = None"
  by (simp add: select_repuestos_colocados_def shop_def job_7_def)

lemma shop_P1: "select_cantidad_disponible (shop n placed) ''P1'' = Some n"
  by (simp add: select_cantidad_disponible_def shop_def part_P1_def)

lemma shop_P2: "select_cantidad_disponible (shop n placed) ''P2'' = Some 4"
  by (simp add: select_cantidad_disponible_def shop_def part_P1_def part_P2_def)

lemma shop_set_P1: "update_cantidad_disponible (shop n placed) m ''P1'' = shop m placed"
  by (simp add: update_cantidad_disponible_def shop_def part_P1_def part_P2_def)

lemma E0_loads_5: "json_loads E0 text_P1_5 = Some (PyDict [(''P1'', PyInt 5)])"
  by (simp add: E0_def loads_table_def)

lemma E0_loads_minus5: "json_loads E0 text_P1_minus5 = Some (PyDict [(''P1'', PyInt (- 5))])"
  by (simp add: E0_def loads_table_def text_P1_5_def text_P1_minus5_def)

lemma E0_loads_2_5:
  "json_loads E0 text_P1_2_5 = Some (PyDict [(''P1'', PyFloat (Finite 5 (- 1)))])"
  by (simp add: E0_def loads_table_def text_P1_5_def text_P1_minus5_def text_P1_2_5_def)

lemma E0_loads_NaN: "json_loads E0 text_P1_NaN = Some (PyDict [(''P1'', PyFloat NaN)])"
  by (simp add: E0_def loads_table_def text_P1_5_def text_P1_minus5_def text_P1_2_5_def
      text_P1_NaN_def)

lemma E0_loads_empty: "json_loads E0 ''{}'' = Some (PyDict [])"
  by (simp add: E0_def loads_table_def text_P1_5_def text_P1_minus5_def text_P1_2_5_def
      text_P1_NaN_def)

text \<open>
  The float arithmetic of the examples, 2.5 being \<open>Finite 5 (- 1)\<close>: 10 - 2.5 = 7.5,
  11 - 2.5 = 8.5, 1 - 2.5 = -1.5, 9 + 2.5 = 11.5; and the integers the column takes for
  7.5, 8.5 and 11.5.
\<close>

lemma E0_float_sub:
  "float_sub E0 10 (Finite 5 (- 1)) = Some (Finite 15 (- 1))"
  "float_sub E0 11 (Finite 5 (- 1)) = Some (Finite 17 (- 1))"
  "float_sub E0 1 (Finite 5 (- 1)) = Some (Finite (- 3) (- 1))"
  by (simp_all add: E0_def sub_table_def)

lemma E0_float_add:
  "float_add E0 9 (Finite 5 (- 1)) = Some (Finite 23 (- 1))"
  by (simp add: E0_def add_table_def)

lemma E0_stored_quantity:
  "stored_quantity E0 (PyFloat (Finite 15 (- 1))) = Inr 8"
  "stored_quantity E0 (PyFloat (Finite 17 (- 1))) = Inr 9"
  "stored_quantity E0 (PyFloat (Finite 23 (- 1))) = Inr 12"
  by (simp_all add: stored_quantity_def E0_def round_half_away_def)

lemma E0_py_sub:
  "py_sub E0 10 (PyFloat (Finite 5 (- 1))) = Inr (PyFloat (Finite 15 (- 1)))"
  "py_sub E0 11 (PyFloat (Finite 5 (- 1))) = Inr (PyFloat (Finite 17 (- 1)))"
  "py_sub E0 1 (PyFloat (Finite 5 (- 1))) = Inr (PyFloat (Finite (- 3) (- 1)))"
  "py_sub E0 3 (PyInt 5) = Inr (PyInt (- 2))"
  by (simp_all add: py_sub_def E0_float_sub)

lemma E0_py_add:
  "py_add E0 9 (PyFloat (Finite 5 (- 1))) = Inr (PyFloat (Finite 23 (- 1)))"
  by (simp add: py_add_def E0_float_add)

text \<open>
  The specification's own run: from 10 pieces and \<^verbatim>\<open>{"P1": 5}\<close>, two decreases answer 5
  and 0, a third is refused and the stock stays 0; an increase then answers 5.
\<close>

lemma reconciliation_example:
  "update_stock E0 7 ''P1'' ''decrease'' (shop 10 text_P1_5) =
     (Inr \<lparr>message = ''Stock updated successfully'', new_stock = PyInt 5\<rparr>, shop 5 text_P1_5)"
  "update_stock E0 7 ''P1'' ''decrease'' (shop 5 text_P1_5) =
     (Inr \<lparr>message = ''Stock updated successfully'', new_stock = PyInt 0\<rparr>, shop 0 text_P1_5)"
  "update_stock E0 7 ''P1'' ''decrease'' (shop 0 text_P1_5) =
     (Inl (HTTPException 400 ''Not enough stock''), shop 0 text_P1_5)"
  "update_stock E0 7 ''P1'' ''increase'' (shop 0 text_P1_5) =
     (Inr \<lparr>message = ''Stock updated successfully'', new_stock = PyInt 5\<rparr>, shop 5 text_P1_5)"
  by (simp_all add: update_stock_recorded[OF shop_job shop_P1 E0_loads_5] py_sub_def py_add_def
      py_negative_def write_stock_int shop_set_P1)

text \<open>
  The same calls on a job that records 2.5 pieces: a decrease from 10 answers 7.5 and
  the column takes 8; a decrease from 11 answers 8.5 and the column takes 9; an increase
  from 9 answers 11.5 and the column takes 12; a decrease from 1 is refused.
\<close>

lemma fractional_example:
  "update_stock E0 7 ''P1'' ''decrease'' (shop 10 text_P1_2_5) =
     (Inr \<lparr>message = ''Stock updated successfully'', new_stock = PyFloat (Finite 15 (- 1))\<rparr>,
      shop 8 text_P1_2_5)"
  "update_stock E0 7 ''P1'' ''decrease'' (shop 11 text_P1_2_5) =
     (Inr \<lparr>message = ''Stock updated successfully'', new_stock = PyFloat (Finite 17 (- 1))\<rparr>,
      shop 9 text_P1_2_5)"
  "update_stock E0 7 ''P1'' ''increase'' (shop 9 text_P1_2_5) =
     (Inr \<lparr>message = ''Stock updated successfully'', new_stock = PyFloat (Finite 23 (- 1))\<rparr>,
      shop 12 text_P1_2_5)"
  "update_stock E0 7 ''P1'' ''decrease'' (shop 1 text_P1_2_5) =
     (Inl (HTTPException 400 ''Not enough stock''), shop 1 text_P1_2_5)"
  by (simp_all add: update_stock_recorded[OF shop_job shop_P1 E0_loads_2_5] E0_py_sub E0_py_add
      py_negative_def float_neg_def write_stock_stored[OF E0_stored_quantity(1)]
      write_stock_stored[OF E0_stored_quantity(2)] write_stock_stored[OF E0_stored_quantity(3)]
      shop_set_P1)

subsection \<open>Decrease\<close>

text \<open>
  A recorded quantity that is not whole is subtracted in floating point, and the
  integer column cannot hold the result: from 10 pieces and \<^verbatim>\<open>{"P1": 2.5}\<close> a \<^verbatim>\<open>decrease\<close>
  succeeds and answers \<^verbatim>\<open>new_stock\<close> = 7.5 while the store is left with 8.
\<close>

theorem decrease_by_fractional_quantity:
  "select_cantidad_disponible (shop 10 text_P1_2_5) ''P1'' = Some 10
   \<and> json_loads E0 text_P1_2_5 = Some (PyDict [(''P1'', PyFloat (Finite 5 (- 1)))])
   \<and> float_sub E0 10 (Finite 5 (- 1)) = Some (Finite 15 (- 1))
   \<and> \<not> float_neg (Finite 15 (- 1))
   \<and> update_stock E0 7 ''P1'' ''decrease'' (shop 10 text_P1_2_5) =
       (Inr \<lparr>message = ''Stock updated successfully'', new_stock = PyFloat (Finite 15 (- 1))\<rparr>,
        shop 8 text_P1_2_5)
   \<and> select_cantidad_disponible (shop 8 text_P1_2_5) ''P1'' = Some 8"
  by (simp add: fractional_example shop_P1 E0_loads_2_5 E0_float_sub float_neg_def)

text \<open>
  C1, amended. When the repair job and the part exist, the part code is a key of the
  job's decoded \<^verbatim>\<open>repuestos_colocados\<close> and the action is \<^verbatim>\<open>decrease\<close>: if the recorded
  quantity is an int \<open>q\<close> (a bool counting as 1 or 0) and current - \<open>q\<close> is not negative,
  \<^verbatim>\<open>update_stock\<close> succeeds, answers \<^verbatim>\<open>new_stock\<close> = current - \<open>q\<close> and leaves a store in
  which the part's quantity reads current - \<open>q\<close>; if the recorded quantity is a float
  \<open>f\<close> and the float \<open>r\<close> = current - \<open>f\<close> is not below zero, it answers \<^verbatim>\<open>new_stock\<close> =
  \<open>r\<close> and leaves in the store the integer the column takes for \<open>r\<close>, or, when driver or
  server refuse \<open>r\<close>, answers status 500 and leaves the store as it was.
\<close>

theorem decrease_persists_and_returns:
  assumes "select_repuestos_colocados d ficha_id = Some js"
    and "select_cantidad_disponible d code = Some cur"
    and "json_loads E js = Some (PyDict placed)"
    and "map_of placed code = Some v"
  shows "(int_quantity v = Some q \<and> 0 \<le> cur - q \<longrightarrow>
            update_stock E ficha_id code ''decrease'' d =
              (Inr \<lparr>message = ''Stock updated successfully'', new_stock = PyInt (cur - q)\<rparr>,
               update_cantidad_disponible d (cur - q) code)
            \<and> select_cantidad_disponible (update_cantidad_disponible d (cur - q) code) code =
                Some (cur - q))
         \<and> (v = PyFloat f \<and> float_sub E cur f = Some r \<and> \<not> float_neg r \<longrightarrow>
              (case stored_quantity E (PyFloat r) of
                 Inr n \<Rightarrow>
                   update_stock E ficha_id code ''decrease'' d =
                     (Inr \<lparr>message = ''Stock updated successfully'', new_stock = PyFloat r\<rparr>,
                      update_cantidad_disponible d n code)
                   \<and> select_cantidad_disponible (update_cantidad_disponible d n code) code =
                       Some n
               | Inl e \<Rightarrow>
                   update_stock E ficha_id code ''decrease'' d = (Inl (DatabaseError e), d)))"
proof (intro conjI impI)
  assume a: "int_quantity v = Some q \<and> 0 \<le> cur - q"
  then have "py_sub E cur v = Inr (PyInt (cur - q))"
    by (simp add: py_sub_int)
  with a show "update_stock E ficha_id code ''decrease'' d =
      (Inr \<lparr>message = ''Stock updated successfully'', new_stock = PyInt (cur - q)\<rparr>,
       update_cantidad_disponible d (cur - q) code)"
    by (simp add: update_stock_recorded[OF assms] py_negative_def write_stock_int)
  from assms(2)
  show "select_cantidad_disponible (update_cantidad_disponible d (cur - q) code) code =
      Some (cur - q)"
    by (simp add: select_after_update)
next
  assume b: "v = PyFloat f \<and> float_sub E cur f = Some r \<and> \<not> float_neg r"
  then have dec: "update_stock E ficha_id code ''decrease'' d = write_stock E d code (PyFloat r)"
    by (simp add: update_stock_recorded[OF assms] py_sub_def py_negative_def)
  show "case stored_quantity E (PyFloat r) of
      Inr n \<Rightarrow>
        update_stock E ficha_id code ''decrease'' d =
          (Inr \<lparr>message = ''Stock updated successfully'', new_stock = PyFloat r\<rparr>,
           update_cantidad_disponible d n code)
        \<and> select_cantidad_disponible (update_cantidad_disponible d n code) code = Some n
    | Inl e \<Rightarrow> update_stock E ficha_id code ''decrease'' d = (Inl (DatabaseError e), d)"
  proof (cases "stored_quantity E (PyFloat r)")
    case (Inl e)
    then show ?thesis by (simp add: dec write_stock_refused)
  next
    case (Inr n)
    with assms(2) show ?thesis by (simp add: dec write_stock_stored select_after_update)
  qed
qed

theorem decrease_persists_and_returns_witness:
  "(update_stock E0 7 ''P1'' ''decrease'' (shop 10 text_P1_5) =
      (Inr \<lparr>message = ''Stock updated successfully'', new_stock = PyInt 5\<rparr>, shop 5 text_P1_5)
    \<and> select_cantidad_disponible (shop 5 text_P1_5) ''P1'' = Some 5)
   \<and> (update_stock E0 7 ''P1'' ''decrease'' (shop 11 text_P1_2_5) =
        (Inr \<lparr>message = ''Stock updated successfully'', new_stock = PyFloat (Finite 17 (- 1))\<rparr>,
         shop 9 text_P1_2_5)
      \<and> select_cantidad_disponible (shop 9 text_P1_2_5) ''P1'' = Some 9)"
  using decrease_persists_and_returns
          [where d = "shop 10 text_P1_5" and ficha_id = 7 and js = text_P1_5 and code = "''P1''"
             and cur = 10 and E = E0 and placed = "[(''P1'', PyInt 5)]" and v = "PyInt 5"
             and q = 5]
        decrease_persists_and_returns
          [where d = "shop 11 text_P1_2_5" and ficha_id = 7 and js = text_P1_2_5
             and code = "''P1''" and cur = 11 and E = E0
             and placed = "[(''P1'', PyFloat (Finite 5 (- 1)))]"
             and v = "PyFloat (Finite 5 (- 1))" and f = "Finite 5 (- 1)"
             and r = "Finite 17 (- 1)"]
  by (simp add: shop_job shop_P1 E0_loads_5 E0_loads_2_5 shop_set_P1 int_quantity_def
      E0_float_sub float_neg_def E0_stored_quantity)

text \<open>
  C2. Under the same conditions, for whatever value is recorded, when current minus the
  recorded quantity is a number below zero, a \<^verbatim>\<open>decrease\<close> is refused with status 400
  and detail \<^verbatim>\<open>Not enough stock\<close>, and the store is the one the handler was given.
\<close>

theorem decrease_refused_when_negative:
  assumes "select_repuestos_colocados d ficha_id = Some js"
    and "select_cantidad_disponible d code = Some cur"
    and "json_loads E js = Some (PyDict placed)"
    and "map_of placed code = Some v"
    and "py_sub E cur v = Inr r"
    and "py_negative r"
  shows "update_stock E ficha_id code ''decrease'' d =
           (Inl (HTTPException 400 ''Not enough stock''), d)"
  using assms(5,6) by (simp add: update_stock_recorded[OF assms(1-4)])

theorem decrease_refused_when_negative_witness:
  "(py_sub E0 3 (PyInt 5) = Inr (PyInt (- 2)) \<and> py_negative (PyInt (- 2))
    \<and> update_stock E0 7 ''P1'' ''decrease'' (shop 3 text_P1_5) =
        (Inl (HTTPException 400 ''Not enough stock''), shop 3 text_P1_5))
   \<and> (py_sub E0 1 (PyFloat (Finite 5 (- 1))) = Inr (PyFloat (Finite (- 3) (- 1)))
      \<and> py_negative (PyFloat (Finite (- 3) (- 1)))
      \<and> update_stock E0 7 ''P1'' ''decrease'' (shop 1 text_P1_2_5) =
          (Inl (HTTPException 400 ''Not enough stock''), shop 1 text_P1_2_5))"
  using decrease_refused_when_negative
          [where d = "shop 3 text_P1_5" and ficha_id = 7 and js = text_P1_5 and code = "''P1''"
             and cur = 3 and E = E0 and placed = "[(''P1'', PyInt 5)]" and v = "PyInt 5"
             and r = "PyInt (- 2)"]
        decrease_refused_when_negative
          [where d = "shop 1 text_P1_2_5" and ficha_id = 7 and js = text_P1_2_5
             and code = "''P1''" and cur = 1 and E = E0
             and placed = "[(''P1'', PyFloat (Finite 5 (- 1)))]"
             and v = "PyFloat (Finite 5 (- 1))" and r = "PyFloat (Finite (- 3) (- 1))"]
  by (simp add: shop_job shop_P1 E0_loads_5 E0_loads_2_5 E0_py_sub py_negative_def
      float_neg_def)
subsection \<open>Increase\<close>

lemma restore_unique_code:
  "distinct (map codigo rows) \<Longrightarrow> find (\<lambda>r. codigo r = c) rows = Some r0 \<Longrightarrow>
   map (\<lambda>r. if codigo r = c then r\<lparr>cantidad_disponible := cantidad_disponible r0\<rparr> else r) rows
     = rows"
proof (induction rows)
  case Nil
  then show ?case by simp
next
  case (Cons r rows)
  show ?case
  proof (cases "codigo r = c")
    case True
    with Cons.prems have r0: "r0 = r" and fresh: "c \<notin> codigo ` set rows"
      by auto
    from fresh have "map (\<lambda>x. if codigo x = c then x\<lparr>cantidad_disponible := cantidad_disponible r0\<rparr>
        else x) rows = rows"
      by (induction rows) auto
    with True r0 show ?thesis by simp
  next
    case False
    with Cons show ?thesis by simp
  qed
qed

lemma update_twice:
  "update_cantidad_disponible (update_cantidad_disponible d m c) n c =
   update_cantidad_disponible d n c"
  by (simp add: update_cantidad_disponible_def comp_def if_distrib cong: if_cong)

lemma update_to_current_unique:
  assumes "distinct (map codigo (repuestos d))"
    and "select_cantidad_disponible d c = Some cur"
  shows "update_cantidad_disponible d cur c = d"
proof -
  from assms(2) obtain r0 where r0: "find (\<lambda>r. codigo r = c) (repuestos d) = Some r0"
    and cur: "cur = cantidad_disponible r0"
    by (auto simp: select_cantidad_disponible_def)
  from restore_unique_code[OF assms(1) r0] cur show ?thesis
    by (simp add: update_cantidad_disponible_def)
qed

text \<open>
  What \<^verbatim>\<open>decrease\<close> and \<^verbatim>\<open>increase\<close> do on a recorded quantity that is a Python int.
\<close>

lemma update_stock_int:
  assumes "select_repuestos_colocados d ficha_id = Some js"
    and "select_cantidad_disponible d code = Some cur"
    and "json_loads E js = Some (PyDict placed)"
    and "map_of placed code = Some v"
    and "int_quantity v = Some q"
  shows "update_stock E ficha_id code ''decrease'' d =
           (if cur - q < 0 then (Inl (HTTPException 400 ''Not enough stock''), d)
            else (Inr \<lparr>message = ''Stock updated successfully'', new_stock = PyInt (cur - q)\<rparr>,
                  update_cantidad_disponible d (cur - q) code))"
    and "update_stock E ficha_id code ''increase'' d =
           (Inr \<lparr>message = ''Stock updated successfully'', new_stock = PyInt (cur + q)\<rparr>,
            update_cantidad_disponible d (cur + q) code)"
  using py_sub_int[OF assms(5), of E cur] py_add_int[OF assms(5), of E cur]
  by (simp_all add: update_stock_recorded[OF assms(1-4)] py_negative_def write_stock_int)

text \<open>
  A decrease by a quantity that is not whole followed by an increase does not give the
  stock back: from 11 pieces and \<^verbatim>\<open>{"P1": 2.5}\<close> the decrease answers 8.5 and leaves 9,
  the increase then answers 11.5 and leaves 12.
\<close>

theorem increase_after_fractional_decrease:
  "select_cantidad_disponible (shop 11 text_P1_2_5) ''P1'' = Some 11
   \<and> update_stock E0 7 ''P1'' ''decrease'' (shop 11 text_P1_2_5) =
       (Inr \<lparr>message = ''Stock updated successfully'', new_stock = PyFloat (Finite 17 (- 1))\<rparr>,
        shop 9 text_P1_2_5)
   \<and> update_stock E0 7 ''P1'' ''increase'' (shop 9 text_P1_2_5) =
       (Inr \<lparr>message = ''Stock updated successfully'', new_stock = PyFloat (Finite 23 (- 1))\<rparr>,
        shop 12 text_P1_2_5)
   \<and> select_cantidad_disponible (shop 12 text_P1_2_5) ''P1'' = Some 12"
  by (simp add: fractional_example shop_P1)

text \<open>
  C3, amended. When the job and the part exist and the part code is a key of the job's
  decoded \<^verbatim>\<open>repuestos_colocados\<close>: if the recorded quantity is an int \<open>q\<close> (a bool
  counting as 1 or 0), an \<^verbatim>\<open>increase\<close> succeeds whatever the numbers are, answers
  current + \<open>q\<close> and leaves that value in the store, and an \<^verbatim>\<open>increase\<close> run on the store
  a successful \<^verbatim>\<open>decrease\<close> left, for the same job and part code, succeeds, answers the
  quantity the part had before the decrease and leaves it in the store; when part
  codes are unique the store is again the one before the decrease. If the recorded
  quantity is a float \<open>f\<close>, an \<^verbatim>\<open>increase\<close> answers the float \<open>r\<close> = current + \<open>f\<close>, with
  no check of \<open>r\<close>, and leaves in the store the integer the column takes for \<open>r\<close>, or,
  when driver or server refuse \<open>r\<close>, answers status 500 and leaves the store as it was;
  nothing is claimed of an increase after a decrease then.
\<close>

theorem increase_is_inverse_of_decrease:
  assumes "select_repuestos_colocados d ficha_id = Some js"
    and "select_cantidad_disponible d code = Some cur"
    and "json_loads E js = Some (PyDict placed)"
    and "map_of placed code = Some v"
  shows "(int_quantity v = Some q \<longrightarrow>
            update_stock E ficha_id code ''increase'' d =
              (Inr \<lparr>message = ''Stock updated successfully'', new_stock = PyInt (cur + q)\<rparr>,
               update_cantidad_disponible d (cur + q) code)
            \<and> select_cantidad_disponible (update_cantidad_disponible d (cur + q) code) code =
                Some (cur + q)
            \<and> (update_stock E ficha_id code ''decrease'' d = (Inr resp, d1) \<longrightarrow>
                 update_stock E ficha_id code ''increase'' d1 =
                   (Inr \<lparr>message = ''Stock updated successfully'', new_stock = PyInt cur\<rparr>,
                    update_cantidad_disponible d cur code)
                 \<and> select_cantidad_disponible (update_cantidad_disponible d cur code) code =
                     Some cur
                 \<and> (distinct (map codigo (repuestos d)) \<longrightarrow>
                      update_cantidad_disponible d cur code = d)))
         \<and> (v = PyFloat f \<and> float_add E cur f = Some r \<longrightarrow>
              (case stored_quantity E (PyFloat r) of
                 Inr n \<Rightarrow>
                   update_stock E ficha_id code ''increase'' d =
                     (Inr \<lparr>message = ''Stock updated successfully'', new_stock = PyFloat r\<rparr>,
                      update_cantidad_disponible d n code)
                   \<and> select_cantidad_disponible (update_cantidad_disponible d n code) code =
                       Some n
               | Inl e \<Rightarrow>
                   update_stock E ficha_id code ''increase'' d = (Inl (DatabaseError e), d)))"
proof (intro conjI impI)
  assume q: "int_quantity v = Some q"
  note int = update_stock_int[OF assms q]
  show "update_stock E ficha_id code ''increase'' d =
      (Inr \<lparr>message = ''Stock updated successfully'', new_stock = PyInt (cur + q)\<rparr>,
       update_cantidad_disponible d (cur + q) code)"
    by (rule int(2))
  from assms(2)
  show "select_cantidad_disponible (update_cantidad_disponible d (cur + q) code) code =
      Some (cur + q)"
    by (simp add: select_after_update)
  from assms(2)
  show "select_cantidad_disponible (update_cantidad_disponible d cur code) code = Some cur"
    by (simp add: select_after_update)
  show "update_cantidad_disponible d cur code = d" if "distinct (map codigo (repuestos d))"
    using that assms(2) by (rule update_to_current_unique)
  assume dec: "update_stock E ficha_id code ''decrease'' d = (Inr resp, d1)"
  have d1: "d1 = update_cantidad_disponible d (cur - q) code"
  proof (cases "cur - q < 0")
    case True
    with dec show ?thesis unfolding int(1) by simp
  next
    case False
    with dec show ?thesis unfolding int(1) by simp
  qed
  have job: "select_repuestos_colocados d1 ficha_id = Some js"
    using assms(1) by (simp add: d1 select_colocados_after_update)
  have part: "select_cantidad_disponible d1 code = Some (cur - q)"
    using assms(2) by (simp add: d1 select_after_update)
  from update_stock_int(2)[OF job part assms(3,4) q]
  show "update_stock E ficha_id code ''increase'' d1 =
      (Inr \<lparr>message = ''Stock updated successfully'', new_stock = PyInt cur\<rparr>,
       update_cantidad_disponible d cur code)"
    by (simp add: d1 update_twice)
next
  assume b: "v = PyFloat f \<and> float_add E cur f = Some r"
  then have inc: "update_stock E ficha_id code ''increase'' d = write_stock E d code (PyFloat r)"
    by (simp add: update_stock_recorded[OF assms] py_add_def)
  show "case stored_quantity E (PyFloat r) of
      Inr n \<Rightarrow>
        update_stock E ficha_id code ''increase'' d =
          (Inr \<lparr>message = ''Stock updated successfully'', new_stock = PyFloat r\<rparr>,
           update_cantidad_disponible d n code)
        \<and> select_cantidad_disponible (update_cantidad_disponible d n code) code = Some n
    | Inl e \<Rightarrow> update_stock E ficha_id code ''increase'' d = (Inl (DatabaseError e), d)"
  proof (cases "stored_quantity E (PyFloat r)")
    case (Inl e)
    then show ?thesis by (simp add: inc write_stock_refused)
  next
    case (Inr n)
    with assms(2) show ?thesis by (simp add: inc write_stock_stored select_after_update)
  qed
qed

theorem increase_is_inverse_of_decrease_witness:
  "update_stock E0 7 ''P1'' ''increase'' (shop 0 text_P1_5) =
     (Inr \<lparr>message = ''Stock updated successfully'', new_stock = PyInt 5\<rparr>, shop 5 text_P1_5)
   \<and> update_stock E0 7 ''P1'' ''decrease'' (shop 10 text_P1_5) =
     (Inr \<lparr>message = ''Stock updated successfully'', new_stock = PyInt 5\<rparr>, shop 5 text_P1_5)
   \<and> update_stock E0 7 ''P1'' ''increase'' (shop 5 text_P1_5) =
     (Inr \<lparr>message = ''Stock updated successfully'', new_stock = PyInt 10\<rparr>, shop 10 text_P1_5)
   \<and> distinct (map codigo (repuestos (shop 10 text_P1_5)))
   \<and> update_stock E0 7 ''P1'' ''increase'' (shop 9 text_P1_2_5) =
     (Inr \<lparr>message = ''Stock updated successfully'', new_stock = PyFloat (Finite 23 (- 1))\<rparr>,
      shop 12 text_P1_2_5)"
proof -
  have dec: "update_stock E0 7 ''P1'' ''decrease'' (shop 10 text_P1_5) =
     (Inr \<lparr>message = ''Stock updated successfully'', new_stock = PyInt 5\<rparr>, shop 5 text_P1_5)"
    by (rule reconciliation_example(1))
  have uniq: "distinct (map codigo (repuestos (shop 10 text_P1_5)))"
    by (simp add: shop_def part_P1_def part_P2_def)
  from increase_is_inverse_of_decrease
         [where d = "shop 0 text_P1_5" and ficha_id = 7 and js = text_P1_5 and code = "''P1''"
            and cur = 0 and E = E0 and placed = "[(''P1'', PyInt 5)]" and v = "PyInt 5"
            and q = 5]
  have inc: "update_stock E0 7 ''P1'' ''increase'' (shop 0 text_P1_5) =
     (Inr \<lparr>message = ''Stock updated successfully'', new_stock = PyInt 5\<rparr>, shop 5 text_P1_5)"
    by (simp add: shop_job shop_P1 E0_loads_5 shop_set_P1 int_quantity_def)
  from increase_is_inverse_of_decrease
         [where d = "shop 10 text_P1_5" and ficha_id = 7 and js = text_P1_5 and code = "''P1''"
            and cur = 10 and E = E0 and placed = "[(''P1'', PyInt 5)]" and v = "PyInt 5"
            and q = 5 and resp = "\<lparr>message = ''Stock updated successfully'', new_stock = PyInt 5\<rparr>"
            and ?d1.0 = "shop 5 text_P1_5"]
  have restored: "update_stock E0 7 ''P1'' ''increase'' (shop 5 text_P1_5) =
     (Inr \<lparr>message = ''Stock updated successfully'', new_stock = PyInt 10\<rparr>, shop 10 text_P1_5)"
    using dec by (simp add: shop_job shop_P1 E0_loads_5 shop_set_P1 int_quantity_def)
  from increase_is_inverse_of_decrease
         [where d = "shop 9 text_P1_2_5" and ficha_id = 7 and js = text_P1_2_5
            and code = "''P1''" and cur = 9 and E = E0
            and placed = "[(''P1'', PyFloat (Finite 5 (- 1)))]"
            and v = "PyFloat (Finite 5 (- 1))" and f = "Finite 5 (- 1)"
            and r = "Finite 23 (- 1)"]
  have "update_stock E0 7 ''P1'' ''increase'' (shop 9 text_P1_2_5) =
     (Inr \<lparr>message = ''Stock updated successfully'', new_stock = PyFloat (Finite 23 (- 1))\<rparr>,
      shop 12 text_P1_2_5)"
    by (simp add: shop_job shop_P1 E0_loads_2_5 shop_set_P1 E0_float_add E0_stored_quantity)
  with dec uniq inc restored show ?thesis by simp
qed

subsection \<open>Failures before the write\<close>

text \<open>
  C4. When the repair job row or the part row is absent, \<^verbatim>\<open>update_stock\<close> fails with
  status 404; when both exist and the part code is not a key of the job's decoded
  \<^verbatim>\<open>repuestos_colocados\<close> mapping, it fails with status 400; in both cases the store is
  the one the handler was given.
\<close>

theorem update_stock_not_found:
  "(select_repuestos_colocados d ficha_id = None \<or> select_cantidad_disponible d code = None
    \<longrightarrow> update_stock E ficha_id code action d =
          (Inl (HTTPException 404 ''Ficha or Repuesto not found''), d))
   \<and> (select_repuestos_colocados d ficha_id = Some js
      \<and> select_cantidad_disponible d code = Some cur
      \<and> json_loads E js = Some (PyDict placed)
      \<and> code \<notin> fst ` set placed
    \<longrightarrow> update_stock E ficha_id code action d =
          (Inl (HTTPException 400 ''Repuesto not found in repuestos_colocados''), d))"
  by (auto simp: update_stock_def py_in_dict split: option.splits)

theorem update_stock_not_found_witness:
  "update_stock E0 8 ''P1'' ''decrease'' (shop 10 text_P1_5) =
     (Inl (HTTPException 404 ''Ficha or Repuesto not found''), shop 10 text_P1_5)
   \<and> update_stock E0 7 ''P2'' ''decrease'' (shop 10 text_P1_5) =
     (Inl (HTTPException 400 ''Repuesto not found in repuestos_colocados''), shop 10 text_P1_5)"
  using update_stock_not_found
          [where d = "shop 10 text_P1_5" and ficha_id = 8 and code = "''P1''" and E = E0
             and action = "''decrease''"]
        update_stock_not_found
          [where d = "shop 10 text_P1_5" and ficha_id = 7 and code = "''P2''" and E = E0
             and action = "''decrease''" and js = text_P1_5 and cur = 4
             and placed = "[(''P1'', PyInt 5)]"]
  by (simp add: shop_no_job_8 shop_job shop_P2 E0_loads_5)

subsection \<open>Stock never below zero\<close>

text \<open>
  The result of \<^verbatim>\<open>stock_actual - cantidad\<close> or \<^verbatim>\<open>stock_actual + cantidad\<close> is an int or a
  float. When it is not below zero, the column takes a value that is not below zero,
  provided the server stores no float that is not below zero as an integer below zero.
\<close>

lemma py_sub_number:
  "py_sub E a v = Inr r \<Longrightarrow> (\<exists>m. r = PyInt m) \<or> (\<exists>f. r = PyFloat f)"
  by (auto simp: py_sub_def split: pyval.splits option.splits)

lemma py_add_number:
  "py_add E a v = Inr r \<Longrightarrow> (\<exists>m. r = PyInt m) \<or> (\<exists>f. r = PyFloat f)"
  by (auto simp: py_add_def split: pyval.splits option.splits)

lemma stored_quantity_nonneg:
  assumes "stored_quantity E r = Inr n"
    and "\<not> py_negative r"
    and "(\<exists>m. r = PyInt m) \<or> (\<exists>f. r = PyFloat f)"
    and "\<forall>f n. \<not> float_neg f \<and> as_int E (PyFloat f) = Some n \<longrightarrow> 0 \<le> n"
  shows "0 \<le> n"
proof -
  from assms(3) consider m where "r = PyInt m" | f where "r = PyFloat f"
    by blast
  then show ?thesis
  proof cases
    case 1
    with assms(1,2) show ?thesis by (simp add: stored_quantity_def py_negative_def)
  next
    case 2
    with assms(1) have "as_int E (PyFloat f) = Some n"
      by (simp add: stored_quantity_def split: if_splits option.splits)
    moreover from 2 assms(2) have "\<not> float_neg f"
      by (simp add: py_negative_def)
    ultimately show ?thesis using assms(4) by blast
  qed
qed

lemma py_add_nonneg:
  assumes "py_add E cur v = Inr r"
    and "0 \<le> cur"
    and "py_nonneg v"
    and "\<forall>n f r. 0 \<le> n \<and> float_nonneg f \<and> float_add E n f = Some r \<longrightarrow> \<not> float_neg r"
  shows "\<not> py_negative r"
proof (cases v)
  case (PyFloat f)
  with assms(1) obtain x where x: "float_add E cur f = Some x" and r: "r = PyFloat x"
    by (cases "float_add E cur f") (simp_all add: py_add_def)
  from PyFloat assms(3) have "float_nonneg f"
    by (simp add: py_nonneg_def)
  with assms(2,4) x have "\<not> float_neg x"
    by blast
  with r show ?thesis by (simp add: py_negative_def)
next
  case (PyInt q)
  with assms(1-3) show ?thesis by (auto simp: py_add_def py_nonneg_def py_negative_def)
next
  case (PyBool b)
  with assms(1,2) show ?thesis by (cases b) (auto simp: py_add_def py_negative_def)
qed (use assms(3) in \<open>simp_all add: py_nonneg_def\<close>)

text \<open>The example server and the example sums meet the two provisos.\<close>

lemma round_half_away_nonneg: "0 \<le> m \<Longrightarrow> 0 \<le> round_half_away m e"
  by (simp add: round_half_away_def sgn_if pos_imp_zdiv_nonneg_iff)

lemma E0_as_int_nonneg:
  "\<forall>f n. \<not> float_neg f \<and> as_int E0 (PyFloat f) = Some n \<longrightarrow> 0 \<le> n"
proof (intro allI impI)
  fix f n assume a: "\<not> float_neg f \<and> as_int E0 (PyFloat f) = Some n"
  then obtain m e where f: "f = Finite m e" and n: "n = round_half_away m e"
    by (cases f) (auto simp: E0_def)
  from a f have "0 \<le> m" by (simp add: float_neg_def)
  with n show "0 \<le> n" by (simp add: round_half_away_nonneg)
qed

lemma E0_float_add_nonneg:
  "\<forall>n f r. 0 \<le> n \<and> float_nonneg f \<and> float_add E0 n f = Some r \<longrightarrow> \<not> float_neg r"
  by (auto simp: E0_def add_table_def float_neg_def split: if_splits)

text \<open>
  An \<^verbatim>\<open>increase\<close> by a recorded quantity below zero lowers the stock, and nothing checks
  the result: from 3 pieces and \<^verbatim>\<open>{"P1": -5}\<close> the handler succeeds, answers -2 and leaves
  -2 in the store.
\<close>

theorem increase_by_negative_quantity:
  "select_cantidad_disponible (shop 3 text_P1_minus5) ''P1'' = Some 3
   \<and> update_stock E0 7 ''P1'' ''increase'' (shop 3 text_P1_minus5) =
       (Inr \<lparr>message = ''Stock updated successfully'', new_stock = PyInt (- 2)\<rparr>,
        shop (- 2) text_P1_minus5)
   \<and> select_cantidad_disponible (shop (- 2) text_P1_minus5) ''P1'' = Some (- 2)"
  by (simp add: update_stock_recorded[OF shop_job shop_P1 E0_loads_minus5] py_add_def
      write_stock_int shop_set_P1 shop_P1)

text \<open>
  C5, amended. A successful \<^verbatim>\<open>update_stock\<close> that starts from a quantity that is not
  negative leaves a quantity that is not negative, for every quantity recorded in
  \<^verbatim>\<open>repuestos_colocados\<close>, whenever the action is \<^verbatim>\<open>decrease\<close> or the recorded quantity is
  itself a number that is not below zero: the value answered is not below zero, and
  the value the column takes for it, the value read back and every row with the part
  code are at least 0. For a recorded float this rests on two provisos on what the
  repository does not define: the server stores no float that is not below zero as an
  integer below zero, and Python's sum of an int and a float that are not below zero
  is not below zero. An \<^verbatim>\<open>increase\<close> by a quantity below zero is not checked.
\<close>

theorem reconciliation_keeps_stock_nonnegative:
  assumes "update_stock E ficha_id code action d = (Inr resp, d')"
    and "select_repuestos_colocados d ficha_id = Some js"
    and "select_cantidad_disponible d code = Some cur"
    and "json_loads E js = Some val"
    and "py_getitem val code = Inr v"
    and "0 \<le> cur"
    and "action = ''decrease'' \<or> py_nonneg v"
    and "\<forall>f n. \<not> float_neg f \<and> as_int E (PyFloat f) = Some n \<longrightarrow> 0 \<le> n"
    and "\<forall>n f r. 0 \<le> n \<and> float_nonneg f \<and> float_add E n f = Some r \<longrightarrow> \<not> float_neg r"
  shows "\<not> py_negative (new_stock resp)
         \<and> (\<exists>n. stored_quantity E (new_stock resp) = Inr n \<and> 0 \<le> n
                \<and> select_cantidad_disponible d' code = Some n)
         \<and> (\<forall>r \<in> set (repuestos d'). codigo r = code \<longrightarrow> 0 \<le> cantidad_disponible r)"
proof -
  from assms(1) obtain js' cur' val' cantidad r n where
    s: "select_repuestos_colocados d ficha_id = Some js'"
       "select_cantidad_disponible d code = Some cur'"
       "json_loads E js' = Some val'"
       "py_getitem val' code = Inr cantidad"
    and act: "action = ''decrease'' \<and> py_sub E cur' cantidad = Inr r \<and> \<not> py_negative r
       \<or> action = ''increase'' \<and> py_add E cur' cantidad = Inr r"
    and resp: "resp = \<lparr>message = ''Stock updated successfully'', new_stock = r\<rparr>"
    and n: "stored_quantity E r = Inr n"
    and d': "d' = update_cantidad_disponible d n code"
    by (rule update_stock_success)
  from s(1) assms(2) have "js' = js" by simp
  with s(3) assms(4) have "val' = val" by simp
  with s(4) assms(5) have v: "cantidad = v" by simp
  from s(2) assms(3) have cur: "cur' = cur" by simp
  have number: "(\<exists>m. r = PyInt m) \<or> (\<exists>f. r = PyFloat f)"
    using act py_sub_number py_add_number by blast
  have ok: "\<not> py_negative r"
  proof (cases "action = ''decrease''")
    case True
    with act show ?thesis by simp
  next
    case False
    with act assms(7) have add: "py_add E cur v = Inr r" and nn: "py_nonneg v"
      by (simp_all add: v cur)
    from add assms(6) nn assms(9) show ?thesis by (rule py_add_nonneg)
  qed
  from n ok number assms(8) have nonneg: "0 \<le> n"
    by (rule stored_quantity_nonneg)
  have sel: "select_cantidad_disponible d' code = Some n"
    using assms(3) unfolding d' by (simp add: select_after_update)
  have rows: "\<forall>r \<in> set (repuestos d'). codigo r = code \<longrightarrow> 0 \<le> cantidad_disponible r"
  proof (intro ballI impI)
    fix x assume "x \<in> set (repuestos d')" and "codigo x = code"
    then have "cantidad_disponible x = n"
      unfolding d' by (rule rows_with_code_after_update)
    with nonneg show "0 \<le> cantidad_disponible x" by simp
  qed
  have answered: "\<not> py_negative (new_stock resp)"
    using ok by (simp add: resp)
  have "stored_quantity E (new_stock resp) = Inr n"
    using n by (simp add: resp)
  with nonneg sel
  have stored: "\<exists>n. stored_quantity E (new_stock resp) = Inr n \<and> 0 \<le> n
      \<and> select_cantidad_disponible d' code = Some n"
    by blast
  from answered stored rows show ?thesis by (intro conjI)
qed

theorem reconciliation_keeps_stock_nonnegative_witness:
  "(update_stock E0 7 ''P1'' ''decrease'' (shop 5 text_P1_5) =
      (Inr \<lparr>message = ''Stock updated successfully'', new_stock = PyInt 0\<rparr>, shop 0 text_P1_5)
    \<and> select_cantidad_disponible (shop 0 text_P1_5) ''P1'' = Some 0
    \<and> list_all (\<lambda>r. 0 \<le> cantidad_disponible r) (repuestos (shop 0 text_P1_5)))
   \<and> (update_stock E0 7 ''P1'' ''increase'' (shop 9 text_P1_2_5) =
        (Inr \<lparr>message = ''Stock updated successfully'', new_stock = PyFloat (Finite 23 (- 1))\<rparr>,
         shop 12 text_P1_2_5)
      \<and> py_nonneg (PyFloat (Finite 5 (- 1)))
      \<and> select_cantidad_disponible (shop 12 text_P1_2_5) ''P1'' = Some 12
      \<and> list_all (\<lambda>r. 0 \<le> cantidad_disponible r) (repuestos (shop 12 text_P1_2_5)))"
proof -
  note dec = reconciliation_example(2)
  note inc = fractional_example(3)
  have get5: "py_getitem (PyDict [(''P1'', PyInt 5)]) ''P1'' = Inr (PyInt 5)"
    and get2_5: "py_getitem (PyDict [(''P1'', PyFloat (Finite 5 (- 1)))]) ''P1'' =
      Inr (PyFloat (Finite 5 (- 1)))"
    by (simp_all add: py_getitem_def)
  have nn: "py_nonneg (PyFloat (Finite 5 (- 1)))"
    by (simp add: py_nonneg_def float_nonneg_def)
  from reconciliation_keeps_stock_nonnegative
         [OF dec shop_job shop_P1 E0_loads_5 get5 _ _ E0_as_int_nonneg E0_float_add_nonneg]
  have a: "select_cantidad_disponible (shop 0 text_P1_5) ''P1'' = Some 0
      \<and> (\<forall>r \<in> set (repuestos (shop 0 text_P1_5)). codigo r = ''P1'' \<longrightarrow> 0 \<le> cantidad_disponible r)"
    by (simp add: stored_quantity_int)
  from reconciliation_keeps_stock_nonnegative
         [OF inc shop_job shop_P1 E0_loads_2_5 get2_5 _ _ E0_as_int_nonneg E0_float_add_nonneg]
  have b: "select_cantidad_disponible (shop 12 text_P1_2_5) ''P1'' = Some 12
      \<and> (\<forall>r \<in> set (repuestos (shop 12 text_P1_2_5)). codigo r = ''P1'' \<longrightarrow> 0 \<le> cantidad_disponible r)"
    using nn by (simp add: E0_stored_quantity)
  have "list_all (\<lambda>r. 0 \<le> cantidad_disponible r) (repuestos (shop 0 text_P1_5))"
    and "list_all (\<lambda>r. 0 \<le> cantidad_disponible r) (repuestos (shop 12 text_P1_2_5))"
    by (simp_all add: shop_def part_P1_def part_P2_def)
  with a b dec inc nn show ?thesis by simp
qed

subsection \<open>What a successful call writes\<close>

text \<open>
  C10. A successful \<^verbatim>\<open>update_stock\<close>, on whatever quantity is recorded, leaves the table
  of repair jobs as it was, keeps every part row whose code is not the given one, and
  changes nothing but \<^verbatim>\<open>cantidad_disponible\<close>, set to the integer the column takes for
  the value answered, in the rows with the given code.
\<close>

theorem update_stock_frame:
  assumes "update_stock E ficha_id code action d = (Inr resp, d')"
  shows "maquinas d' = maquinas d
         \<and> (\<exists>n. stored_quantity E (new_stock resp) = Inr n
                \<and> repuestos d' =
                    map (\<lambda>r. if codigo r = code then r\<lparr>cantidad_disponible := n\<rparr> else r)
                      (repuestos d))"
proof -
  from assms obtain r n where "resp = \<lparr>message = ''Stock updated successfully'', new_stock = r\<rparr>"
    and "stored_quantity E r = Inr n" and "d' = update_cantidad_disponible d n code"
    by (rule update_stock_success)
  then show ?thesis by (simp add: update_cantidad_disponible_def)
qed

theorem update_stock_frame_witness:
  "(update_stock E0 7 ''P1'' ''decrease'' (shop 10 text_P1_5) =
      (Inr \<lparr>message = ''Stock updated successfully'', new_stock = PyInt 5\<rparr>, shop 5 text_P1_5)
    \<and> maquinas (shop 5 text_P1_5) = maquinas (shop 10 text_P1_5)
    \<and> repuestos (shop 5 text_P1_5) = [(part_P1 10)\<lparr>cantidad_disponible := 5\<rparr>, part_P2])
   \<and> (update_stock E0 7 ''P1'' ''decrease'' (shop 10 text_P1_2_5) =
        (Inr \<lparr>message = ''Stock updated successfully'', new_stock = PyFloat (Finite 15 (- 1))\<rparr>,
         shop 8 text_P1_2_5)
      \<and> maquinas (shop 8 text_P1_2_5) = maquinas (shop 10 text_P1_2_5)
      \<and> repuestos (shop 8 text_P1_2_5) = [(part_P1 10)\<lparr>cantidad_disponible := 8\<rparr>, part_P2])"
proof -
  note dec = reconciliation_example(1)
  note frac = fractional_example(1)
  from update_stock_frame[OF dec]
  have a: "maquinas (shop 5 text_P1_5) = maquinas (shop 10 text_P1_5)
      \<and> repuestos (shop 5 text_P1_5) = [(part_P1 10)\<lparr>cantidad_disponible := 5\<rparr>, part_P2]"
    by (simp add: stored_quantity_int shop_def part_P1_def part_P2_def)
  from update_stock_frame[OF frac]
  have b: "maquinas (shop 8 text_P1_2_5) = maquinas (shop 10 text_P1_2_5)
      \<and> repuestos (shop 8 text_P1_2_5) = [(part_P1 10)\<lparr>cantidad_disponible := 8\<rparr>, part_P2]"
    by (simp add: E0_stored_quantity shop_def part_P1_def part_P2_def)
  from a b dec frac show ?thesis by simp
qed

subsection \<open>Failures leave the store alone\<close>

text \<open>
  Whatever makes \<^verbatim>\<open>update_stock\<close> fail, the store it leaves is the store it was given:
  every failure comes before the \<^verbatim>\<open>UPDATE\<close> or is the \<^verbatim>\<open>UPDATE\<close> refused.
\<close>

theorem update_stock_failure_keeps_store:
  assumes "update_stock E ficha_id code action d = (Inl e, d')"
  shows "d' = d"
  using assms
  by (auto simp: update_stock_def write_stock_def Let_def
      split: option.splits sum.splits if_splits)

theorem update_stock_failure_keeps_store_witness:
  "update_stock E0 7 ''P1'' ''decrease'' (shop 0 text_P1_5) =
     (Inl (HTTPException 400 ''Not enough stock''), shop 0 text_P1_5)"
proof -
  have "fst (update_stock E0 7 ''P1'' ''decrease'' (shop 0 text_P1_5)) =
      Inl (HTTPException 400 ''Not enough stock'')"
    by (simp add: reconciliation_example(3))
  then have "update_stock E0 7 ''P1'' ''decrease'' (shop 0 text_P1_5) =
      (Inl (HTTPException 400 ''Not enough stock''),
       snd (update_stock E0 7 ''P1'' ''decrease'' (shop 0 text_P1_5)))"
    by (metis prod.collapse)
  from update_stock_failure_keeps_store[OF this] this show ?thesis by simp
qed

text \<open>
  An action that is neither \<^verbatim>\<open>decrease\<close> nor \<^verbatim>\<open>increase\<close> is refused with status 400 once
  the job, the part and the recorded quantity are found; \<^verbatim>\<open>FastAPI/main.py\<close> lets any
  string reach the handler.
\<close>

theorem update_stock_invalid_action:
  assumes "select_repuestos_colocados d ficha_id = Some js"
    and "select_cantidad_disponible d code = Some cur"
    and "json_loads E js = Some (PyDict placed)"
    and "map_of placed code = Some v"
    and "action \<noteq> ''decrease''" and "action \<noteq> ''increase''"
  shows "update_stock E ficha_id code action d = (Inl (HTTPException 400 ''Invalid action''), d)"
  using assms(5,6) by (simp add: update_stock_recorded[OF assms(1-4)])

theorem update_stock_invalid_action_witness:
  "update_stock E0 7 ''P1'' ''reset'' (shop 10 text_P1_5) =
     (Inl (HTTPException 400 ''Invalid action''), shop 10 text_P1_5)"
  using update_stock_invalid_action
          [where d = "shop 10 text_P1_5" and ficha_id = 7 and js = text_P1_5 and code = "''P1''"
             and cur = 10 and E = E0 and placed = "[(''P1'', PyInt 5)]" and v = "PyInt 5"
             and action = "''reset''"]
  by (simp add: shop_job shop_P1 E0_loads_5)
section \<open>Properties of partial update and delete\<close>

lemmas column_names =
  ordm_def oacute_def iacute_def col_descripcion_def col_n_estanteria_def col_n_estante_def
  col_n_BIN_def col_posicion_BIN_def col_n_bat_def col_n_cargador_def col_diagnostico_def
  col_reparacion_def col_n_ciclos_def

subsection \<open>The statement on a table without a matching row\<close>






subsection \<open>Part: update\<close>



text \<open>
  A payload with no allow-listed key is refused with status 400 before any statement
  is run.
\<close>

lemma update_repuesto_no_valid_fields:
  assumes "set (map fst repuesto) \<inter> set allowed_fields = {}"
  shows "update_repuesto E id' repuesto d =
           (Inl (HTTPException 400 ''No valid fields to update''), d)"
proof -
  from assms have "filter (\<lambda>field. field \<in> set allowed_fields) (map fst repuesto) = []"
    by (auto simp: filter_empty_conv)
  then show ?thesis by (simp add: update_repuesto_def)
qed

text \<open>
  A payload that holds an allow-listed key and a key outside the list: the statement
  has one placeholder for each allow-listed key, the parameters hold every value, and
  the driver raises. The answer is the handler's status 500 and no row is written.
\<close>

lemma update_repuesto_mixed_payload:
  assumes "k \<in> set (map fst repuesto)" and "k \<in> set allowed_fields"
    and "k' \<in> set (map fst repuesto)" and "k' \<notin> set allowed_fields"
  shows "update_repuesto E id' repuesto d = (Inl (DatabaseError ParameterType), d)
         \<or> update_repuesto E id' repuesto d = (Inl (DatabaseError ParameterCount), d)"
proof -
  let ?fs = "filter (\<lambda>field. field \<in> set allowed_fields) (map fst repuesto)"
  from assms(1,2) have "k \<in> set ?fs" by simp
  then have ne: "?fs \<noteq> []" by (metis empty_iff empty_set)
  from assms(3,4) have "length ?fs < length (map fst repuesto)"
    by (rule length_filter_less)
  then have "length (map snd repuesto @ [PyInt id']) \<noteq> length ?fs + 1" by simp
  then have "execute_update E repuestos_columns (set_repuesto_col E) ID ?fs
      (map snd repuesto @ [PyInt id']) (repuestos d) = Inl ParameterType
    \<or> execute_update E repuestos_columns (set_repuesto_col E) ID ?fs
      (map snd repuesto @ [PyInt id']) (repuestos d) = Inl ParameterCount"
    by (simp add: execute_update_def)
  with ne show ?thesis by (auto simp: update_repuesto_def)
qed

subsection \<open>Repair job: update\<close>

text \<open>
  When every key of the payload is a column name, the statement of \<^verbatim>\<open>update_ficha\<close> is
  the \<^verbatim>\<open>UPDATE\<close> of those columns; otherwise it is the caller's SQL text.
\<close>

lemma execute_maquinas_columns:
  assumes "set fs \<subseteq> set maquinas_columns"
  shows "execute_maquinas E fs ps d =
    (case execute_update E maquinas_columns (set_maquina_col E) item fs ps (maquinas d) of
       Inl e \<Rightarrow> (Inl e, d)
     | Inr (rowcount, rows') \<Rightarrow> (Inr rowcount, d\<lparr>maquinas := rows'\<rparr>))"
proof -
  from assms have "list_all (\<lambda>c. c \<in> set maquinas_columns) fs"
    by (auto simp: list_all_iff)
  then show ?thesis by (simp add: execute_maquinas_def)
qed

lemma execute_maquinas_foreign:
  assumes "\<not> set fs \<subseteq> set maquinas_columns"
  shows "execute_maquinas E fs ps d = foreign_statement E ''maquinas'' fs ps d"
proof -
  from assms have "\<not> list_all (\<lambda>c. c \<in> set maquinas_columns) fs"
    by (auto simp: list_all_iff)
  then show ?thesis by (simp add: execute_maquinas_def)
qed



text \<open>
  A payload with a key that is no column name: the answer and the store are those of
  the statement the keys spell, whatever rows the identifier matches.
\<close>

lemma update_ficha_foreign:
  assumes "\<not> set (map fst ficha) \<subseteq> set maquinas_columns"
  shows "update_ficha E id' ficha d =
    (case foreign_statement E ''maquinas'' (map fst ficha)
            (map (ficha_value E) ficha @ [PyInt id']) d of
       (Inl e, d') \<Rightarrow> (Inl (DatabaseError e), d')
     | (Inr rowcount, d') \<Rightarrow>
         if rowcount = 0 then (Inl (HTTPException 404 ''Ficha no encontrada''), d')
         else (Inr ''Ficha actualizada exitosamente'', d'))"
  by (simp add: update_ficha_def execute_maquinas_foreign[OF assms])

text \<open>
  The empty payload. \<^verbatim>\<open>update_ficha\<close> of \<^verbatim>\<open>Backend/main.py\<close> sends
  \<^verbatim>\<open>UPDATE maquinas SET  WHERE item = %s\<close> and answers the database error with status
  500; the handlers of \<^verbatim>\<open>FastAPI/main.py\<close> answer 400 before any statement.
\<close>

lemma update_ficha_empty:
  "update_ficha E id' [] d =
     (Inl (DatabaseError (if bindable E (PyInt id') then SyntaxError else ParameterType)), d)"
  by (simp add: update_ficha_def execute_maquinas_def execute_update_def)

lemma update_ficha_FastAPI_empty:
  "update_ficha_FastAPI E id' [] d = (Inl (HTTPException 400 ''No fields to update''), d)"
  by (simp add: update_ficha_FastAPI_def)

lemma update_repuesto_FastAPI_empty:
  "update_repuesto_FastAPI E id' [] d = (Inl (HTTPException 400 ''No fields to update''), d)"
  by (simp add: update_repuesto_FastAPI_def)

subsection \<open>Delete\<close>






subsection \<open>The example store\<close>



lemma codigo_allowed: "''codigo'' \<in> set allowed_fields"
  by (simp add: allowed_fields_def)

lemma color_not_allowed: "''color'' \<notin> set allowed_fields"
  by (simp add: allowed_fields_def col_descripcion_def col_n_estanteria_def col_n_estante_def
      col_n_BIN_def col_posicion_BIN_def)


subsection \<open>The two checks of the part update, on the example store\<close>

theorem update_repuesto_no_valid_fields_witness:
  "update_repuesto E0 1 [(''color'', PyStr ''red'')] (shop 10 text_P1_5) =
     (Inl (HTTPException 400 ''No valid fields to update''), shop 10 text_P1_5)"
  using update_repuesto_no_valid_fields
          [where repuesto = "[(''color'', PyStr ''red'')]" and E = E0 and id' = 1
             and d = "shop 10 text_P1_5"]
  by (simp add: color_not_allowed)

theorem update_repuesto_mixed_payload_witness:
  "update_repuesto E0 1 [(''codigo'', PyStr ''X1''), (''color'', PyStr ''red'')]
     (shop 10 text_P1_5) =
     (Inl (DatabaseError ParameterCount), shop 10 text_P1_5)"
proof -
  have "list_all (bindable E0) [PyStr ''X1'', PyStr ''red'', PyInt 1]"
    by (simp add: E0_def)
  then have "update_repuesto E0 1 [(''codigo'', PyStr ''X1''), (''color'', PyStr ''red'')]
      (shop 10 text_P1_5) \<noteq> (Inl (DatabaseError ParameterType), shop 10 text_P1_5)"
    by (simp add: update_repuesto_def execute_update_def codigo_allowed color_not_allowed)
  with update_repuesto_mixed_payload
         [of "''codigo''" "[(''codigo'', PyStr ''X1''), (''color'', PyStr ''red'')]" "''color''"
            E0 1 "shop 10 text_P1_5"]
  show ?thesis by (simp add: codigo_allowed color_not_allowed)
qed

subsection \<open>An update without fields\<close>

text \<open>
  C6. A partial update whose payload holds no recognized field is to be refused with
  status 400 before the store is touched. \<^verbatim>\<open>update_repuesto\<close> does so. \<^verbatim>\<open>update_ficha\<close> of
  \<^verbatim>\<open>Backend/main.py\<close> has no such check: on the empty payload it runs the statement
  with an empty \<^verbatim>\<open>SET\<close> list and answers the database error with status 500, where
  \<^verbatim>\<open>update_ficha\<close> of \<^verbatim>\<open>FastAPI/main.py\<close> answers 400. No row changes in any of them.
\<close>

theorem update_ficha_empty_payload:
  "update_ficha E0 7 [] (shop 10 text_P1_5) =
     (Inl (DatabaseError SyntaxError), shop 10 text_P1_5)
   \<and> status_code (DatabaseError SyntaxError) = 500
   \<and> update_ficha_FastAPI E0 7 [] (shop 10 text_P1_5) =
     (Inl (HTTPException 400 ''No fields to update''), shop 10 text_P1_5)
   \<and> update_repuesto E0 1 [] (shop 10 text_P1_5) =
     (Inl (HTTPException 400 ''No valid fields to update''), shop 10 text_P1_5)"
proof -
  have "bindable E0 (PyInt 7)" by (simp add: E0_def)
  then have "update_ficha E0 7 [] (shop 10 text_P1_5) =
      (Inl (DatabaseError SyntaxError), shop 10 text_P1_5)"
    by (simp add: update_ficha_empty)
  moreover have "update_repuesto E0 1 [] (shop 10 text_P1_5) =
      (Inl (HTTPException 400 ''No valid fields to update''), shop 10 text_P1_5)"
    by (simp add: update_repuesto_def)
  ultimately show ?thesis by (simp add: update_ficha_FastAPI_empty)
qed

subsection \<open>An update with a field outside the allow-list\<close>

text \<open>
  C7. A payload for a part that holds an allow-listed field and a field outside the
  list is to have its allow-listed fields written. \<^verbatim>\<open>update_repuesto\<close> builds the \<^verbatim>\<open>SET\<close>
  list from the allow-listed keys and the parameters from every value: with
  \<^verbatim>\<open>{"codigo": "X1", "color": "red"}\<close> the statement has two placeholders and three
  parameters, the driver raises, the handler answers status 500 and the row keeps its
  code. The same payload without \<^verbatim>\<open>color\<close> is written.
\<close>

theorem update_repuesto_mixed_payload_fails:
  "update_repuesto E0 1 [(''codigo'', PyStr ''X1''), (''color'', PyStr ''red'')]
     (shop 10 text_P1_5) =
     (Inl (DatabaseError ParameterCount), shop 10 text_P1_5)
   \<and> status_code (DatabaseError ParameterCount) = 500
   \<and> update_repuesto E0 1 [(''codigo'', PyStr ''X1'')] (shop 10 text_P1_5) =
     (Inr ''Repuesto actualizado exitosamente'',
      \<lparr>repuestos = [(part_P1 10)\<lparr>codigo := ''X1''\<rparr>, part_P2],
       maquinas = [job_7 text_P1_5]\<rparr>)"
proof -
  have b: "list_all (bindable E0) [PyStr ''X1'', PyStr ''red'', PyInt 1]"
    by (simp add: E0_def)
  have mixed: "update_repuesto E0 1 [(''codigo'', PyStr ''X1''), (''color'', PyStr ''red'')]
      (shop 10 text_P1_5) = (Inl (DatabaseError ParameterCount), shop 10 text_P1_5)"
    using b by (simp add: update_repuesto_def execute_update_def codigo_allowed color_not_allowed)
  have cols: "''codigo'' \<in> set repuestos_columns"
    by (simp add: repuestos_columns_def)
  have rows: "update_rows (\<lambda>r. ID r = 1) (apply_sets (set_repuesto_col E0) [(''codigo'', PyStr ''X1'')])
      (repuestos (shop 10 text_P1_5)) = Some [(part_P1 10)\<lparr>codigo := ''X1''\<rparr>, part_P2]"
    by (simp add: shop_def part_P1_def part_P2_def set_repuesto_col_def E0_def)
  have changed: "rows_changed (repuestos (shop 10 text_P1_5))
      [(part_P1 10)\<lparr>codigo := ''X1''\<rparr>, part_P2] = 1"
    by (simp add: rows_changed_def shop_def part_P1_def part_P2_def)
  have "execute_update E0 repuestos_columns (set_repuesto_col E0) ID [''codigo'']
      [PyStr ''X1'', PyInt 1] (repuestos (shop 10 text_P1_5)) =
      Inr (1, [(part_P1 10)\<lparr>codigo := ''X1''\<rparr>, part_P2])"
    using cols rows changed by (simp add: execute_update_def E0_def)
  then have "update_repuesto E0 1 [(''codigo'', PyStr ''X1'')] (shop 10 text_P1_5) =
     (Inr ''Repuesto actualizado exitosamente'',
      \<lparr>repuestos = [(part_P1 10)\<lparr>codigo := ''X1''\<rparr>, part_P2],
       maquinas = [job_7 text_P1_5]\<rparr>)"
    by (simp add: update_repuesto_def codigo_allowed shop_def)
  with mixed show ?thesis by simp
qed

subsection \<open>An identifier that matches no row\<close>




section \<open>Properties of the listing and of the sanitizer\<close>

text \<open>What \<^verbatim>\<open>sanitize_data\<close> returns holds no non-finite float, at any depth.\<close>

lemma sanitize_data_finite: "\<not> nonfinite (sanitize_data v)"
proof (induction v)
  case (PyFloat f)
  then show ?case by (cases f) (simp_all add: py_float_eq_def)
next
  case (PyList vs)
  then show ?case by (simp add: list_ex_iff)
next
  case (PyDict kvs)
  then show ?case by (fastforce simp: list_ex_iff)
qed simp_all

text \<open>
  \<^verbatim>\<open>get_fichas\<close> answers, for every row, exactly what \<^verbatim>\<open>json.loads\<close> made of the two
  columns: nothing is applied to the decoded values.
\<close>

lemma decode_fichas_loaded:
  "decode_fichas E fichas = Inr out \<Longrightarrow>
   map (\<lambda>x. Some (colocados x)) out = map (\<lambda>f. json_loads E (repuestos_colocados f)) fichas
   \<and> map (\<lambda>x. Some (faltantes x)) out = map (\<lambda>f. json_loads E (repuestos_faltantes f)) fichas
   \<and> map stored out = fichas"
  by (induction fichas arbitrary: out) (auto split: option.splits sum.splits)

lemma get_fichas_loaded:
  assumes "get_fichas E d = Inr out"
  shows "map (\<lambda>x. Some (colocados x)) out =
         map (\<lambda>f. json_loads E (repuestos_colocados f)) (sort_key numero_ficha (maquinas d))"
  using assms decode_fichas_loaded[of E "sort_key numero_ficha (maquinas d)" out]
  by (simp add: get_fichas_def)

text \<open>
  The text \<^verbatim>\<open>{"P1": NaN}\<close> reaches the column through \<^verbatim>\<open>update_ficha\<close>, whose payload
  values are of any type and whose \<^verbatim>\<open>json.dumps\<close> writes \<^verbatim>\<open>NaN\<close>.
\<close>

lemma update_ficha_stores_NaN:
  "update_ficha E0 7 [(''repuestos_colocados'', PyDict [(''P1'', PyFloat NaN)])]
     (shop 10 text_P1_5) =
   (Inr ''Ficha actualizada exitosamente'', shop 10 text_P1_NaN)"
proof -
  have dumps: "json_dumps E0 (PyDict [(''P1'', PyFloat NaN)]) = text_P1_NaN"
    by (simp add: E0_def loads_table_def)
  have differ: "text_P1_5 \<noteq> text_P1_NaN"
    by (simp add: text_P1_5_def text_P1_NaN_def)
  have rows: "update_rows (\<lambda>r. item r = 7)
      (apply_sets (set_maquina_col E0) [(''repuestos_colocados'', PyStr text_P1_NaN)])
      (maquinas (shop 10 text_P1_5)) = Some [job_7 text_P1_NaN]"
    by (simp add: shop_def job_7_def set_maquina_col_def E0_def column_names)
  have changed: "rows_changed (maquinas (shop 10 text_P1_5)) [job_7 text_P1_NaN] = 1"
    using differ by (simp add: rows_changed_def shop_def job_7_def)
  have "execute_update E0 maquinas_columns (set_maquina_col E0) item [''repuestos_colocados'']
      [PyStr text_P1_NaN, PyInt 7] (maquinas (shop 10 text_P1_5)) =
      Inr (1, [job_7 text_P1_NaN])"
    using rows changed by (simp add: execute_update_def E0_def maquinas_columns_def)
  moreover have "set [''repuestos_colocados''] \<subseteq> set maquinas_columns"
    by (simp add: maquinas_columns_def)
  ultimately show ?thesis
    by (simp add: update_ficha_def ficha_value_def dumps shop_def execute_maquinas_columns)
qed

lemma get_fichas_example:
  "get_fichas E0 (shop 10 text_P1_NaN) =
     Inr [\<lparr>stored = job_7 text_P1_NaN, colocados = PyDict [(''P1'', PyFloat NaN)],
           faltantes = PyDict []\<rparr>]"
proof -
  have "repuestos_colocados (job_7 text_P1_NaN) = text_P1_NaN"
    and "repuestos_faltantes (job_7 text_P1_NaN) = ''{}''"
    by (simp_all add: job_7_def)
  then show ?thesis
    by (simp add: get_fichas_def shop_def E0_loads_NaN E0_loads_empty)
qed

theorem sanitize_data_finite_witness:
  "\<not> nonfinite (sanitize_data (PyDict [(''P1'', PyFloat NaN)]))"
  by (rule sanitize_data_finite)

theorem get_fichas_loaded_witness:
  "get_fichas E0 (shop 10 text_P1_NaN) =
     Inr [\<lparr>stored = job_7 text_P1_NaN, colocados = PyDict [(''P1'', PyFloat NaN)],
           faltantes = PyDict []\<rparr>]
   \<and> map (\<lambda>f. json_loads E0 (repuestos_colocados f)) (maquinas (shop 10 text_P1_NaN)) =
       [Some (PyDict [(''P1'', PyFloat NaN)])]"
proof -
  from get_fichas_loaded[OF get_fichas_example]
  have "map (\<lambda>f. json_loads E0 (repuestos_colocados f)) (maquinas (shop 10 text_P1_NaN)) =
       [Some (PyDict [(''P1'', PyFloat NaN)])]"
    by (simp add: shop_def)
  with get_fichas_example show ?thesis by simp
qed

text \<open>
  C9. A non-finite float in a transported mapping is to be replaced by a null value on
  every path that returns the mapping. \<^verbatim>\<open>sanitize_data\<close> would do it, and no handler
  calls it: with \<^verbatim>\<open>{"P1": NaN}\<close> stored for job 7, \<^verbatim>\<open>get_fichas\<close> answers the mapping with
  \<^verbatim>\<open>NaN\<close> in it.
\<close>

theorem get_fichas_returns_NaN:
  "get_fichas E0 (shop 10 text_P1_NaN) =
     Inr [\<lparr>stored = job_7 text_P1_NaN, colocados = PyDict [(''P1'', PyFloat NaN)],
           faltantes = PyDict []\<rparr>]
   \<and> nonfinite (PyDict [(''P1'', PyFloat NaN)])"
  by (simp add: get_fichas_example)

text \<open>What \<^verbatim>\<open>sanitize_data\<close> would have made of that mapping.\<close>

lemma sanitize_data_example:
  "sanitize_data (PyDict [(''P1'', PyFloat NaN)]) = PyDict [(''P1'', PyNone)]"
  by (simp add: py_float_eq_def)

end
